theory Spec2Isabelle
  imports Main
begin

section \<open>Strings as the validators see them\<close>

text \<open>
  Python strings are sequences of code points. A \<^typ>\<open>char\<close> stands for one code point
  below 256, so \<^const>\<open>length\<close> counts what \<^verbatim>\<open>len\<close> counts on such input.

  \<^verbatim>\<open>str.strip()\<close> and the regular expression class \<^verbatim>\<open>\s\<close> (on a \<^verbatim>\<open>str\<close> pattern) share one
  notion of whitespace: the code points 9 to 13, 28 to 32, 133 and 160 in this range.
\<close>

definition isspace :: "char \<Rightarrow> bool" where
  "isspace c = (of_char c \<in> {9, 10, 11, 12, 13, 28, 29, 30, 31, 32, 133, 160 :: nat})"

text \<open>The class \<^verbatim>\<open>[a-zA-Z]\<close>.\<close>

definition ascii_letter :: "char \<Rightarrow> bool" where
  "ascii_letter c =
     (let n = (of_char c :: nat) in (97 \<le> n \<and> n \<le> 122) \<or> (65 \<le> n \<and> n \<le> 90))"

definition strip :: "string \<Rightarrow> string" where
  "strip s = rev (dropWhile isspace (rev (dropWhile isspace s)))"

text \<open>
  \<^verbatim>\<open>re.match(r'^[a-zA-Z\s]+$', s)\<close>: one or more characters of the class, up to the end of
  \<open>s\<close>. The anchor \<^verbatim>\<open>$\<close> would also stop before one final newline, which is itself in the
  class, so the match succeeds exactly when \<open>s\<close> is not empty and every character is in
  the class.
\<close>

definition re_match_letters :: "string \<Rightarrow> bool" where
  "re_match_letters s = (s \<noteq> [] \<and> list_all (\<lambda>c. ascii_letter c \<or> isspace c) s)"

text \<open>\<^verbatim>\<open>html.escape(s)\<close> with its default \<^verbatim>\<open>quote=True\<close>.\<close>

definition escape_char :: "char \<Rightarrow> string" where
  "escape_char c =
     (if c = CHR ''&'' then ''&amp;''
      else if c = CHR ''<'' then ''&lt;''
      else if c = CHR ''>'' then ''&gt;''
      else if c = CHR 0x22 then ''&quot;''
      else if c = CHR 0x27 then ''&#x27;''
      else [c])"

definition html_escape :: "string \<Rightarrow> string" where
  "html_escape s = concat (map escape_char s)"

section \<open>utils.py\<close>

text \<open>
  The validators return a pair: the flag, and the cleaned value or the message.
  \<^verbatim>\<open>validate_marks\<close> first converts with \<^verbatim>\<open>int(marks)\<close>; the argument here is the outcome of
  that conversion, \<^const>\<open>None\<close> when it raises \<^verbatim>\<open>ValueError\<close> or \<^verbatim>\<open>TypeError\<close>.
\<close>

definition validate_marks :: "int option \<Rightarrow> string + int" where
  "validate_marks marks =
     (case marks of
        None \<Rightarrow> Inl ''Marks must be a valid number''
      | Some m \<Rightarrow>
          if m < 0 \<or> m > 100 then Inl ''Marks must be between 0 and 100'' else Inr m)"

definition validate_name :: "string \<Rightarrow> bool \<times> string" where
  "validate_name name =
     (if name = [] \<or> length (strip name) < 2
        then (False, ''Name must be at least 2 characters long'')
      else if \<not> re_match_letters (strip name)
        then (False, ''Name can only contain letters and spaces'')
      else (True, strip name))"

definition validate_subject :: "string \<Rightarrow> bool \<times> string" where
  "validate_subject subject =
     (if subject = [] \<or> length (strip subject) < 2
        then (False, ''Subject must be at least 2 characters long'')
      else if \<not> re_match_letters (strip subject)
        then (False, ''Subject can only contain letters and spaces'')
      else (True, strip subject))"

text \<open>The result is the triple \<^verbatim>\<open>(success, total, message)\<close> of the source.\<close>

definition calculate_new_marks :: "int \<Rightarrow> int \<Rightarrow> bool \<times> int \<times> string" where
  "calculate_new_marks existing_marks new_marks =
     (let total = existing_marks + new_marks
      in if total > 100 then (False, total, ''Total marks cannot exceed 100'')
         else (True, total, ''Marks updated successfully''))"

section \<open>forms.py: the second copy of the validators\<close>

definition forms_validate_name :: "string \<Rightarrow> bool \<times> string" where
  "forms_validate_name name =
     (if name = [] \<or> length (strip name) < 2
        then (False, ''Name must be at least 2 characters long'')
      else if \<not> re_match_letters (strip name)
        then (False, ''Name can only contain letters and spaces'')
      else (True, strip name))"

definition forms_validate_subject :: "string \<Rightarrow> bool \<times> string" where
  "forms_validate_subject subject =
     (if subject = [] \<or> length (strip subject) < 2
        then (False, ''Subject must be at least 2 characters long'')
      else if \<not> re_match_letters (strip subject)
        then (False, ''Subject can only contain letters and spaces'')
      else (True, strip subject))"

section \<open>models.py\<close>

text \<open>
  A table is the list of its rows in insertion order; a primary key is an integer drawn
  from the table's counter. A time is an integer number of microseconds. The clock, the
  random source behind \<^verbatim>\<open>secrets.token_hex(32)\<close>, the digest \<^verbatim>\<open>hashlib.sha256\<close> and the
  framework's \<^verbatim>\<open>clean_ipv6_address\<close> (the compressed form of an IPv6 address, nothing when
  the text is not one) are outside the repository: one request reads them from its
  environment, the clock once.
  A foreign key to a teacher is the teacher's primary key. The store commits every write
  as it is made unless the code opens a transaction.
\<close>

record env =
  now :: int
  token_hex :: string
  sha256_hexdigest :: "string \<Rightarrow> string"
  clean_ipv6_address :: "string \<Rightarrow> string option"

record Teacher =
  teacher_id :: int
  teacher_username :: string
  teacher_password_hash :: string
  teacher_salt :: string
  teacher_created_at :: int

record Student =
  student_id :: int
  student_name :: string
  student_subject :: string
  student_marks :: int
  student_teacher :: int
  student_created_at :: int
  student_updated_at :: int

record SessionToken =
  session_id :: int
  session_teacher :: int
  session_token :: string
  session_created_at :: int
  session_expires_at :: int

record AuditLog =
  log_id :: int
  log_teacher :: int
  log_action :: string
  log_student_name :: string
  log_subject :: string
  log_old_marks :: "int option"
  log_new_marks :: "int option"
  log_timestamp :: int
  log_ip_address :: string

record database =
  teachers :: "Teacher list"
  students :: "Student list"
  sessions :: "SessionToken list"
  audit_logs :: "AuditLog list"
  next_student_id :: int
  next_session_id :: int
  next_log_id :: int

datatype exn =
    DoesNotExist
  | MultipleObjectsReturned
  | IntegrityError
  | Http404
  | ParseError
  | AttributeError
  | ValidationError "(string \<times> string) list"

text \<open>\<^verbatim>\<open>Model.objects.get(...)\<close>: the one row that matches, or an exception.\<close>

definition objects_get :: "('a \<Rightarrow> bool) \<Rightarrow> 'a list \<Rightarrow> exn + 'a" where
  "objects_get p rows =
     (case filter p rows of
        [] \<Rightarrow> Inl DoesNotExist
      | [r] \<Rightarrow> Inr r
      | _ \<Rightarrow> Inl MultipleObjectsReturned)"

definition timedelta_hours :: "int \<Rightarrow> int" where
  "timedelta_hours h = h * 3600000000"

definition check_password :: "env \<Rightarrow> Teacher \<Rightarrow> string \<Rightarrow> bool" where
  "check_password e teacher raw_password =
     (let salted_password = raw_password @ teacher_salt teacher;
          computed_hash = sha256_hexdigest e salted_password
      in computed_hash = teacher_password_hash teacher)"

definition is_valid :: "env \<Rightarrow> SessionToken \<Rightarrow> bool" where
  "is_valid e session = (now e < session_expires_at session)"

text \<open>
  \<^verbatim>\<open>SessionToken.create_token\<close>: the teacher's old rows are deleted, then the new row is
  inserted. The column \<^verbatim>\<open>token\<close> is unique, so the insert raises when another teacher's row
  already holds the same token; the deletion has happened by then.
\<close>

definition create_token :: "env \<Rightarrow> int \<Rightarrow> database \<Rightarrow> (exn + SessionToken) \<times> database" where
  "create_token e teacher db =
     (let token = token_hex e;
          expires_at = now e + timedelta_hours 8;
          db1 = db\<lparr>sessions := filter (\<lambda>s. session_teacher s \<noteq> teacher) (sessions db)\<rparr>;
          session = \<lparr>session_id = next_session_id db1, session_teacher = teacher,
                     session_token = token, session_created_at = now e,
                     session_expires_at = expires_at\<rparr>
      in if list_ex (\<lambda>s. session_token s = token) (sessions db1)
         then (Inl IntegrityError, db1)
         else (Inr session,
               db1\<lparr>sessions := sessions db1 @ [session],
                   next_session_id := next_session_id db1 + 1\<rparr>))"

text \<open>\<^verbatim>\<open>session.delete()\<close> removes the row with the object's primary key.\<close>

definition SessionToken_delete :: "SessionToken \<Rightarrow> database \<Rightarrow> database" where
  "SessionToken_delete session db =
     db\<lparr>sessions := filter (\<lambda>s. session_id s \<noteq> session_id session) (sessions db)\<rparr>"

text \<open>
  \<^verbatim>\<open>Student.objects.create\<close>: \<^verbatim>\<open>unique_together\<close> makes the insert raise when the teacher
  already has a row with this name and subject.
\<close>

definition Student_create ::
  "env \<Rightarrow> string \<Rightarrow> string \<Rightarrow> int \<Rightarrow> int \<Rightarrow> database \<Rightarrow> (exn + Student) \<times> database" where
  "Student_create e name subject marks teacher db =
     (let student = \<lparr>student_id = next_student_id db, student_name = name,
                     student_subject = subject, student_marks = marks,
                     student_teacher = teacher, student_created_at = now e,
                     student_updated_at = now e\<rparr>
      in if list_ex (\<lambda>s. student_name s = name \<and> student_subject s = subject
                          \<and> student_teacher s = teacher) (students db)
         then (Inl IntegrityError, db)
         else (Inr student,
               db\<lparr>students := students db @ [student],
                  next_student_id := next_student_id db + 1\<rparr>))"

text \<open>
  \<^verbatim>\<open>student.save()\<close> on a loaded row writes the object's fields to the row with its primary
  key, and \<^verbatim>\<open>auto_now\<close> refreshes \<^verbatim>\<open>updated_at\<close>.
\<close>

definition Student_save :: "env \<Rightarrow> Student \<Rightarrow> database \<Rightarrow> database" where
  "Student_save e student db =
     db\<lparr>students :=
          map (\<lambda>s. if student_id s = student_id student
                    then student\<lparr>student_updated_at := now e\<rparr> else s) (students db)\<rparr>"

definition Student_delete :: "Student \<Rightarrow> database \<Rightarrow> database" where
  "Student_delete student db =
     db\<lparr>students := filter (\<lambda>s. student_id s \<noteq> student_id student) (students db)\<rparr>"

text \<open>
  What a \<^verbatim>\<open>GenericIPAddressField\<close> writes for a text: a text with a colon is tried as an IPv6
  address and written in its compressed form; any other text, and one that is not an
  IPv6 address after all, is written as it is.
\<close>

definition get_prep_value :: "env \<Rightarrow> string \<Rightarrow> string" where
  "get_prep_value e v =
     (if CHR '':'' \<in> set v
      then (case clean_ipv6_address e v of None \<Rightarrow> v | Some c \<Rightarrow> c)
      else v)"

text \<open>
  \<^verbatim>\<open>AuditLog.objects.create\<close>. The column \<^verbatim>\<open>ip_address\<close> is declared without \<^verbatim>\<open>null=True\<close>
  (unlike \<^verbatim>\<open>old_marks\<close> and \<^verbatim>\<open>new_marks\<close>), and an address field stores the empty string as
  NULL: the insert raises when the caller has no address to give. A compressed IPv6
  address is never empty, so the text that is written is empty only when the text that
  was given is.
\<close>

definition AuditLog_create ::
  "env \<Rightarrow> int \<Rightarrow> string \<Rightarrow> string \<Rightarrow> string \<Rightarrow> int option \<Rightarrow> int option \<Rightarrow> string option
     \<Rightarrow> database \<Rightarrow> (exn + AuditLog) \<times> database" where
  "AuditLog_create e teacher action name subject old_marks new_marks ip db =
     (case ip of
        None \<Rightarrow> (Inl IntegrityError, db)
      | Some a \<Rightarrow>
          if a = [] then (Inl IntegrityError, db)
          else
            (let entry = \<lparr>log_id = next_log_id db, log_teacher = teacher, log_action = action,
                          log_student_name = name, log_subject = subject,
                          log_old_marks = old_marks, log_new_marks = new_marks,
                          log_timestamp = now e,
                          log_ip_address = get_prep_value e a\<rparr>
             in (Inr entry,
                 db\<lparr>audit_logs := audit_logs db @ [entry],
                    next_log_id := next_log_id db + 1\<rparr>)))"

text \<open>
  \<^verbatim>\<open>with transaction.atomic():\<close> an exception that leaves the block rolls the store back to
  what it was on entry, and goes on to the caller.
\<close>

definition atomic ::
  "(database \<Rightarrow> (exn + 'a) \<times> database) \<Rightarrow> database \<Rightarrow> (exn + 'a) \<times> database" where
  "atomic block db =
     (case block db of
        (Inl ex, _) \<Rightarrow> (Inl ex, db)
      | (Inr r, db') \<Rightarrow> (Inr r, db'))"

section \<open>Requests and responses\<close>

text \<open>
  What a handler reads of a request. The payload of an API call is \<^verbatim>\<open>request.data\<close>, absent
  when the body cannot be parsed. Each of its fields holds what the framework's own field
  class makes of the raw value before the code of this repository sees it: the
  framework's message when it rejects the value (missing, blank, too long, not an
  integer), the converted value otherwise. \<^verbatim>\<open>request.teacher\<close> is the attribute the
  authentication gate sets.
\<close>

record api_data =
  data_name :: "string + string"
  data_subject :: "string + string"
  data_marks :: "string + int"
  data_student_id :: "string + int"

record request =
  COOKIES_session_token :: "string option"
  X_Requested_With :: "string option"
  HTTP_X_FORWARDED_FOR :: "string option"
  REMOTE_ADDR :: "string option"
  is_secure :: bool
  POST_username :: "string option"
  POST_password :: "string option"
  data :: "api_data option"
  request_teacher :: "int option"

datatype json =
    JNull
  | JBool bool
  | JInt int
  | JStr string
  | JList "json list"
  | JObj "(string \<times> json) list"

datatype cookie =
    SetCookie string string int bool bool string
  | DeleteCookie string

datatype form_error = Required | Max_length | Null_characters | Message string

text \<open>
  \<^verbatim>\<open>Response(data, status)\<close> and \<^verbatim>\<open>JsonResponse(data, status)\<close> carry a body and a status;
  \<^verbatim>\<open>redirect(name)\<close> carries the cookies set on it; \<^verbatim>\<open>render(request, template, form)\<close> shows
  the form with its errors.
\<close>

datatype response =
    Response json int
  | JsonResponse json int
  | Redirect string "cookie list"
  | Render string "(string \<times> form_error list) list"

definition get_client_ip :: "request \<Rightarrow> string option" where
  "get_client_ip request =
     (case HTTP_X_FORWARDED_FOR request of
        None \<Rightarrow> REMOTE_ADDR request
      | Some x_forwarded_for \<Rightarrow>
          if x_forwarded_for \<noteq> [] then Some (takeWhile (\<lambda>c. c \<noteq> CHR '','') x_forwarded_for)
          else REMOTE_ADDR request)"

text \<open>Decimal rendering of an integer, for the f-string of the merge message.\<close>

fun str_nat :: "nat \<Rightarrow> string" where
  "str_nat n =
     (if n < 10 then [char_of (48 + n)]
      else str_nat (n div 10) @ [char_of (48 + n mod 10)])"

declare str_nat.simps [simp del]

definition str_int :: "int \<Rightarrow> string" where
  "str_int i = (if i < 0 then ''-'' @ str_nat (nat (- i)) else str_nat (nat i))"

text \<open>The test \<^verbatim>\<open>sub in s\<close> on strings.\<close>

fun is_substring :: "string \<Rightarrow> string \<Rightarrow> bool" where
  "is_substring sub [] = (sub = [])"
| "is_substring sub (c # cs) = (take (length sub) (c # cs) = sub \<or> is_substring sub cs)"

section \<open>utils.py: the authentication gate\<close>

text \<open>
  \<^verbatim>\<open>check_auth\<close> catches \<^verbatim>\<open>SessionToken.DoesNotExist\<close> only; any other exception of the lookup
  leaves it.
\<close>

definition check_auth :: "env \<Rightarrow> request \<Rightarrow> database \<Rightarrow> exn + bool \<times> int option" where
  "check_auth e request db =
     (case COOKIES_session_token request of
        None \<Rightarrow> Inr (False, None)
      | Some token \<Rightarrow>
          if token = [] then Inr (False, None)
          else
            (case objects_get (\<lambda>s. session_token s = token) (sessions db) of
               Inl ex \<Rightarrow> if ex = DoesNotExist then Inr (False, None) else Inl ex
             | Inr session \<Rightarrow>
                 if \<not> is_valid e session then Inr (False, None)
                 else Inr (True, Some (session_teacher session))))"

definition require_authentication ::
  "(env \<Rightarrow> request \<Rightarrow> database \<Rightarrow> (exn + response) \<times> database)
     \<Rightarrow> env \<Rightarrow> request \<Rightarrow> database \<Rightarrow> (exn + response) \<times> database" where
  "require_authentication original_dispatch e request db =
     (case check_auth e request db of
        Inl ex \<Rightarrow> (Inl ex, db)
      | Inr (is_authenticated, teacher) \<Rightarrow>
          if \<not> is_authenticated then
            (if X_Requested_With request = Some ''XMLHttpRequest''
             then (Inr (JsonResponse (JObj [(''error'', JStr ''Authentication required'')]) 401), db)
             else (Inr (Redirect ''login'' []), db))
          else original_dispatch e (request\<lparr>request_teacher := teacher\<rparr>) db)"

section \<open>forms.py: the login form\<close>

text \<open>
  A form \<^verbatim>\<open>CharField\<close> strips the submitted value and rejects an empty one when
  \<^verbatim>\<open>required=True\<close>; then its validators run and their errors are collected: the one for
  \<^verbatim>\<open>max_length\<close>, and the one every \<^verbatim>\<open>CharField\<close> has against null characters. A field
  that fails here has no entry in \<^verbatim>\<open>cleaned_data\<close>, and its \<^verbatim>\<open>clean_...\<close> method is not run.
\<close>

definition CharField_clean :: "nat option \<Rightarrow> string option \<Rightarrow> form_error list + string" where
  "CharField_clean max_length raw =
     (let v = strip (case raw of None \<Rightarrow> [] | Some s \<Rightarrow> s)
      in if v = [] then Inl [Required]
         else
           (let errors =
                  (case max_length of
                     None \<Rightarrow> []
                   | Some n \<Rightarrow> if length v > n then [Max_length] else [])
                  @ (if CHR 0x00 \<in> set v then [Null_characters] else [])
            in if errors = [] then Inr v else Inl errors))"

definition clean_username :: "string \<Rightarrow> form_error list + string" where
  "clean_username username =
     (if username \<noteq> [] then
        (let username' = html_escape (strip username)
         in if length username' < 3
            then Inl [Message ''Username must be at least 3 characters long'']
            else Inr username')
      else Inr username)"

definition clean_password :: "string \<Rightarrow> form_error list + string" where
  "clean_password password =
     (if password \<noteq> [] \<and> length password < 6
      then Inl [Message ''Password must be at least 6 characters long'']
      else Inr password)"

definition field_errors :: "string \<Rightarrow> 'e + 'a \<Rightarrow> (string \<times> 'e) list" where
  "field_errors field r = (case r of Inl m \<Rightarrow> [(field, m)] | Inr _ \<Rightarrow> [])"

definition run_field :: "'e + 'a \<Rightarrow> ('a \<Rightarrow> 'e + 'b) \<Rightarrow> 'e + 'b" where
  "run_field r validate = (case r of Inl m \<Rightarrow> Inl m | Inr v \<Rightarrow> validate v)"

text \<open>\<^verbatim>\<open>form.is_valid()\<close>: the errors of the form, or \<^verbatim>\<open>cleaned_data\<close>.\<close>

definition LoginForm_is_valid ::
  "string option \<Rightarrow> string option
     \<Rightarrow> (string \<times> form_error list) list + string \<times> string" where
  "LoginForm_is_valid raw_username raw_password =
     (let username = run_field (CharField_clean (Some 100) raw_username) clean_username;
          password = run_field (CharField_clean None raw_password) clean_password
      in case (username, password) of
           (Inr u, Inr p) \<Rightarrow> Inr (u, p)
         | _ \<Rightarrow> Inl (field_errors ''username'' username @ field_errors ''password'' password))"

section \<open>serializers.py\<close>

text \<open>
  The \<^verbatim>\<open>validate_<field>\<close> methods raise \<^verbatim>\<open>serializers.ValidationError\<close> with a message, or
  return the cleaned value.
\<close>

definition StudentSerializer_validate_name :: "string \<Rightarrow> string + string" where
  "StudentSerializer_validate_name v =
     (if v \<noteq> [] then
        (let v' = html_escape (strip v);
             (is_valid, result) = validate_name v'
         in if \<not> is_valid then Inl result else Inr result)
      else Inr v)"

definition StudentSerializer_validate_subject :: "string \<Rightarrow> string + string" where
  "StudentSerializer_validate_subject v =
     (if v \<noteq> [] then
        (let v' = html_escape (strip v);
             (is_valid, result) = validate_subject v'
         in if \<not> is_valid then Inl result else Inr result)
      else Inr v)"

definition StudentSerializer_validate_marks :: "int \<Rightarrow> string + int" where
  "StudentSerializer_validate_marks v = validate_marks (Some v)"

definition MarksUpdateSerializer_validate_marks :: "int \<Rightarrow> string + int" where
  "MarksUpdateSerializer_validate_marks v = validate_marks (Some v)"

text \<open>
  \<^verbatim>\<open>serializer.is_valid()\<close>: every field is run, the errors are collected by field;
  without errors the result is \<^verbatim>\<open>validated_data\<close>.
\<close>

definition StudentCreateUpdateSerializer_is_valid ::
  "api_data \<Rightarrow> (string \<times> string) list + string \<times> string \<times> int" where
  "StudentCreateUpdateSerializer_is_valid d =
     (let name = run_field (data_name d) StudentSerializer_validate_name;
          subject = run_field (data_subject d) StudentSerializer_validate_subject;
          marks = run_field (data_marks d) StudentSerializer_validate_marks
      in case (name, subject, marks) of
           (Inr n, Inr s, Inr m) \<Rightarrow> Inr (n, s, m)
         | _ \<Rightarrow> Inl (field_errors ''name'' name @ field_errors ''subject'' subject
                      @ field_errors ''marks'' marks))"

definition MarksUpdateSerializer_is_valid ::
  "api_data \<Rightarrow> (string \<times> string) list + int \<times> int" where
  "MarksUpdateSerializer_is_valid d =
     (let student_id = data_student_id d;
          marks = run_field (data_marks d) MarksUpdateSerializer_validate_marks
      in case (student_id, marks) of
           (Inr i, Inr m) \<Rightarrow> Inr (i, m)
         | _ \<Rightarrow> Inl (field_errors ''student_id'' student_id @ field_errors ''marks'' marks))"

definition StudentDeleteSerializer_is_valid :: "api_data \<Rightarrow> (string \<times> string) list + int" where
  "StudentDeleteSerializer_is_valid d =
     (case data_student_id d of
        Inr i \<Rightarrow> Inr i
      | Inl m \<Rightarrow> Inl (field_errors ''student_id'' (data_student_id d)))"

definition errors_json :: "(string \<times> string) list \<Rightarrow> json" where
  "errors_json errors = JObj (map (\<lambda>(field, m). (field, JList [JStr m])) errors)"

definition StudentSerializer_data :: "Student \<Rightarrow> json" where
  "StudentSerializer_data s =
     JObj [(''id'', JInt (student_id s)), (''name'', JStr (student_name s)),
           (''subject'', JStr (student_subject s)), (''marks'', JInt (student_marks s)),
           (''created_at'', JInt (student_created_at s)),
           (''updated_at'', JInt (student_updated_at s))]"

text \<open>
  \<^verbatim>\<open>StudentCreateUpdateSerializer.create\<close>. The result is the student together with the
  \<^verbatim>\<open>_update_message\<close> attached to it. \<^verbatim>\<open>except Student.DoesNotExist\<close> takes the lookup that finds
  nothing to the creation branch; every other exception leaves the method.
\<close>

definition StudentCreateUpdateSerializer_create ::
  "env \<Rightarrow> int \<Rightarrow> string option \<Rightarrow> string \<times> string \<times> int \<Rightarrow> database
     \<Rightarrow> (exn + Student \<times> string) \<times> database" where
  "StudentCreateUpdateSerializer_create e teacher ip_address validated_data db =
     (let (name, subject, marks) = validated_data
      in case objects_get (\<lambda>s. student_name s = name \<and> student_subject s = subject
                                \<and> student_teacher s = teacher) (students db) of
           Inr existing_student \<Rightarrow>
             (let (success, new_marks, message) =
                    calculate_new_marks (student_marks existing_student) marks
              in if \<not> success then (Inl (ValidationError [(''marks'', message)]), db)
                 else
                   (let old_marks = student_marks existing_student;
                        existing_student' = existing_student\<lparr>student_marks := new_marks\<rparr>;
                        db1 = Student_save e existing_student' db
                    in case AuditLog_create e teacher ''UPDATE_MARKS'' name subject
                              (Some old_marks) (Some new_marks) ip_address db1 of
                         (Inl ex, db2) \<Rightarrow> (Inl ex, db2)
                       | (Inr _, db2) \<Rightarrow>
                           (Inr (existing_student'\<lparr>student_updated_at := now e\<rparr>,
                                 ''Updated marks for '' @ name @ ''. New total: ''
                                   @ str_int new_marks), db2)))
         | Inl ex \<Rightarrow>
             if ex \<noteq> DoesNotExist then (Inl ex, db)
             else
               (case Student_create e name subject marks teacher db of
                  (Inl ex', db1) \<Rightarrow> (Inl ex', db1)
                | (Inr student, db1) \<Rightarrow>
                    (case AuditLog_create e teacher ''CREATE_STUDENT'' name subject
                            None (Some marks) ip_address db1 of
                       (Inl ex', db2) \<Rightarrow> (Inl ex', db2)
                     | (Inr _, db2) \<Rightarrow>
                         (Inr (student, ''Student '' @ name @ '' added successfully''), db2))))"

section \<open>views.py\<close>

definition get_object_or_404 :: "('a \<Rightarrow> bool) \<Rightarrow> 'a list \<Rightarrow> exn + 'a" where
  "get_object_or_404 p rows =
     (case objects_get p rows of
        Inl ex \<Rightarrow> if ex = DoesNotExist then Inl Http404 else Inl ex
      | Inr r \<Rightarrow> Inr r)"

text \<open>
  \<^verbatim>\<open>LoginView.post\<close>. Nothing here opens a transaction: each statement that writes is
  committed as it runs, and an exception leaves the view with the writes made so far.
\<close>

definition LoginView_post :: "env \<Rightarrow> request \<Rightarrow> database \<Rightarrow> (exn + response) \<times> database" where
  "LoginView_post e request db =
     (case LoginForm_is_valid (POST_username request) (POST_password request) of
        Inl errors \<Rightarrow> (Inr (Render ''portal/login.html'' errors), db)
      | Inr (username, password) \<Rightarrow>
          (case objects_get (\<lambda>t. teacher_username t = username) (teachers db) of
             Inl ex \<Rightarrow>
               if ex = DoesNotExist
               then (Inr (Render ''portal/login.html''
                            [(''username'', [Message ''Invalid credentials''])]), db)
               else (Inl ex, db)
           | Inr teacher \<Rightarrow>
               if check_password e teacher password then
                 (case create_token e (teacher_id teacher) db of
                    (Inl ex, db1) \<Rightarrow> (Inl ex, db1)
                  | (Inr session, db1) \<Rightarrow>
                      (case AuditLog_create e (teacher_id teacher) ''LOGIN'' ''N/A'' ''N/A''
                              None None (get_client_ip request) db1 of
                         (Inl ex, db2) \<Rightarrow> (Inl ex, db2)
                       | (Inr _, db2) \<Rightarrow>
                           (Inr (Redirect ''home''
                                   [SetCookie ''session_token'' (session_token session) 28800
                                      True (is_secure request) ''Lax'']), db2)))
               else (Inr (Render ''portal/login.html''
                            [(''password'', [Message ''Invalid credentials''])]), db)))"

text \<open>
  \<^verbatim>\<open>StudentCreateView.post\<close>. The whole body is inside \<^verbatim>\<open>try\<close>; its last handler,
  \<^verbatim>\<open>except Exception\<close>, turns every exception into the response with status 500: the
  \<^const>\<open>ParseError\<close> of a body that cannot be parsed, the \<^const>\<open>AttributeError\<close> of a request
  without \<^verbatim>\<open>request.teacher\<close>, and whatever leaves the atomic block.
\<close>

definition StudentCreateView_post ::
  "env \<Rightarrow> request \<Rightarrow> database \<Rightarrow> (exn + response) \<times> database" where
  "StudentCreateView_post e request db =
     (let server_error =
            Response (JObj [(''success'', JBool False),
                            (''error'', JStr ''Server error occurred'')]) 500
      in case (data request, request_teacher request) of
           (Some d, Some teacher) \<Rightarrow>
             (case StudentCreateUpdateSerializer_is_valid d of
                Inr validated_data \<Rightarrow>
                  (case atomic (StudentCreateUpdateSerializer_create e teacher
                                  (get_client_ip request) validated_data) db of
                     (Inl ex, db') \<Rightarrow> (Inr server_error, db')
                   | (Inr (student, message), db') \<Rightarrow>
                       (let response_data =
                              [(''success'', JBool True), (''message'', JStr message),
                               (''student_id'', JInt (student_id student)),
                               (''new_marks'', JInt (student_marks student))];
                            response_data' =
                              (if is_substring ''added successfully'' message
                               then response_data
                                      @ [(''student'', StudentSerializer_data student)]
                               else response_data)
                        in (Inr (Response (JObj response_data') 201), db')))
              | Inl errors \<Rightarrow>
                  (Inr (Response (JObj [(''success'', JBool False),
                                        (''error'', JStr ''Invalid form data''),
                                        (''form_errors'', errors_json errors)]) 400), db))
         | _ \<Rightarrow> (Inr server_error, db))"

text \<open>
  \<^verbatim>\<open>StudentUpdateView.post\<close>: the block run under \<^verbatim>\<open>transaction.atomic()\<close>, then the view.
\<close>

definition update_block ::
  "env \<Rightarrow> request \<Rightarrow> int \<Rightarrow> int \<Rightarrow> database \<Rightarrow> (exn + response) \<times> database" where
  "update_block e request sid new_marks db =
     (case request_teacher request of
        None \<Rightarrow> (Inl AttributeError, db)
      | Some teacher \<Rightarrow>
          (case get_object_or_404 (\<lambda>s. student_id s = sid \<and> student_teacher s = teacher)
                  (students db) of
             Inl ex \<Rightarrow> (Inl ex, db)
           | Inr student \<Rightarrow>
               (let old_marks = student_marks student;
                    student' = student\<lparr>student_marks := new_marks\<rparr>;
                    db1 = Student_save e student' db
                in case AuditLog_create e teacher ''INLINE_UPDATE'' (student_name student')
                          (student_subject student') (Some old_marks) (Some new_marks)
                          (get_client_ip request) db1 of
                     (Inl ex, db2) \<Rightarrow> (Inl ex, db2)
                   | (Inr _, db2) \<Rightarrow>
                       (Inr (Response (JObj [(''success'', JBool True),
                                             (''message'', JStr ''Marks updated successfully'')])
                               200), db2))))"

definition StudentUpdateView_post ::
  "env \<Rightarrow> request \<Rightarrow> database \<Rightarrow> (exn + response) \<times> database" where
  "StudentUpdateView_post e request db =
     (let server_error =
            Response (JObj [(''success'', JBool False),
                            (''error'', JStr ''Failed to update marks'')]) 500
      in case data request of
           None \<Rightarrow> (Inr server_error, db)
         | Some d \<Rightarrow>
             (case MarksUpdateSerializer_is_valid d of
                Inr (sid, new_marks) \<Rightarrow>
                  (case atomic (update_block e request sid new_marks) db of
                     (Inl ex, db') \<Rightarrow> (Inr server_error, db')
                   | (Inr r, db') \<Rightarrow> (Inr r, db'))
              | Inl errors \<Rightarrow>
                  (Inr (Response (JObj [(''success'', JBool False),
                                        (''error'', JStr ''Invalid data''),
                                        (''form_errors'', errors_json errors)]) 400), db)))"

text \<open>\<^verbatim>\<open>StudentDeleteView.post\<close>, in the same two parts.\<close>

definition delete_block ::
  "env \<Rightarrow> request \<Rightarrow> int \<Rightarrow> database \<Rightarrow> (exn + response) \<times> database" where
  "delete_block e request sid db =
     (case request_teacher request of
        None \<Rightarrow> (Inl AttributeError, db)
      | Some teacher \<Rightarrow>
          (case get_object_or_404 (\<lambda>s. student_id s = sid \<and> student_teacher s = teacher)
                  (students db) of
             Inl ex \<Rightarrow> (Inl ex, db)
           | Inr student \<Rightarrow>
               (case AuditLog_create e teacher ''DELETE_STUDENT'' (student_name student)
                       (student_subject student) (Some (student_marks student)) None
                       (get_client_ip request) db of
                  (Inl ex, db1) \<Rightarrow> (Inl ex, db1)
                | (Inr _, db1) \<Rightarrow>
                    (Inr (Response (JObj [(''success'', JBool True),
                                          (''message'', JStr ''Student deleted successfully'')])
                            200), Student_delete student db1))))"

definition StudentDeleteView_post ::
  "env \<Rightarrow> request \<Rightarrow> database \<Rightarrow> (exn + response) \<times> database" where
  "StudentDeleteView_post e request db =
     (let server_error =
            Response (JObj [(''success'', JBool False),
                            (''error'', JStr ''Failed to delete student'')]) 500
      in case data request of
           None \<Rightarrow> (Inr server_error, db)
         | Some d \<Rightarrow>
             (case StudentDeleteSerializer_is_valid d of
                Inr sid \<Rightarrow>
                  (case atomic (delete_block e request sid) db of
                     (Inl ex, db') \<Rightarrow> (Inr server_error, db')
                   | (Inr r, db') \<Rightarrow> (Inr r, db'))
              | Inl errors \<Rightarrow>
                  (Inr (Response (JObj [(''success'', JBool False),
                                        (''error'', JStr ''Invalid data''),
                                        (''form_errors'', errors_json errors)]) 400), db)))"

text \<open>
  \<^verbatim>\<open>LogoutView.post\<close>, again without a transaction. Only \<^verbatim>\<open>SessionToken.DoesNotExist\<close> is
  caught.
\<close>

definition LogoutView_post :: "env \<Rightarrow> request \<Rightarrow> database \<Rightarrow> (exn + response) \<times> database" where
  "LogoutView_post e request db =
     (let response = Redirect ''login'' [DeleteCookie ''session_token'']
      in case COOKIES_session_token request of
           None \<Rightarrow> (Inr response, db)
         | Some token \<Rightarrow>
             if token = [] then (Inr response, db)
             else
               (case objects_get (\<lambda>s. session_token s = token) (sessions db) of
                  Inl ex \<Rightarrow> if ex = DoesNotExist then (Inr response, db) else (Inl ex, db)
                | Inr session \<Rightarrow>
                    (case AuditLog_create e (session_teacher session) ''LOGOUT'' ''N/A'' ''N/A''
                            None None (get_client_ip request) db of
                       (Inl ex, db1) \<Rightarrow> (Inl ex, db1)
                     | (Inr _, db1) \<Rightarrow> (Inr response, SessionToken_delete session db1))))"

section \<open>urls.py: the state-changing routes\<close>

datatype route = login | logout | add_student | update_marks | delete_student

definition dispatch ::
  "route \<Rightarrow> env \<Rightarrow> request \<Rightarrow> database \<Rightarrow> (exn + response) \<times> database" where
  "dispatch r e request db =
     (case r of
        login \<Rightarrow> LoginView_post e request db
      | logout \<Rightarrow> LogoutView_post e request db
      | add_student \<Rightarrow> require_authentication StudentCreateView_post e request db
      | update_marks \<Rightarrow> require_authentication StudentUpdateView_post e request db
      | delete_student \<Rightarrow> require_authentication StudentDeleteView_post e request db)"

text \<open>The stores that requests can produce, from a store without students.\<close>

inductive reachable :: "database \<Rightarrow> bool" where
  initial: "students db = [] \<Longrightarrow> reachable db"
| request: "reachable db \<Longrightarrow> dispatch r e request db = (result, db') \<Longrightarrow> reachable db'"

section \<open>The causes of a rejected request\<close>

text \<open>
  The three ways in which a request fails to authenticate, in the words of the
  specification: it carries no token, a token that no session row holds, or the token of
  a session that has expired.
\<close>

definition no_token :: "request \<Rightarrow> bool" where
  "no_token request =
     (case COOKIES_session_token request of None \<Rightarrow> True | Some t \<Rightarrow> t = [])"

definition unknown_token :: "request \<Rightarrow> database \<Rightarrow> bool" where
  "unknown_token request db =
     (case COOKIES_session_token request of
        None \<Rightarrow> False
      | Some t \<Rightarrow> t \<noteq> [] \<and> filter (\<lambda>s. session_token s = t) (sessions db) = [])"

definition expired_token :: "env \<Rightarrow> request \<Rightarrow> database \<Rightarrow> bool" where
  "expired_token e request db =
     (case COOKIES_session_token request of
        None \<Rightarrow> False
      | Some t \<Rightarrow>
          t \<noteq> [] \<and>
          (case filter (\<lambda>s. session_token s = t) (sessions db) of
             [s] \<Rightarrow> session_expires_at s \<le> now e
           | _ \<Rightarrow> False))"

section \<open>A scenario\<close>

text \<open>
  Two teachers, each with a session, and the requests of the scenario that closes the
  specification. The digest of the scenario is a stand-in: the handlers only compare
  digests. No address of the scenario has a colon, so its \<^const>\<open>clean_ipv6_address\<close> is
  never asked.
\<close>

definition stand_in_digest :: "string \<Rightarrow> string" where
  "stand_in_digest s = ''sha256:'' @ s"

definition alice :: Teacher where
  "alice = \<lparr>teacher_id = 1, teacher_username = ''alice'',
             teacher_password_hash = stand_in_digest (''wonderland'' @ ''5a17''),
             teacher_salt = ''5a17'', teacher_created_at = 0\<rparr>"

definition carol :: Teacher where
  "carol = \<lparr>teacher_id = 2, teacher_username = ''carol'',
             teacher_password_hash = stand_in_digest (''abc'' @ ''77f0''),
             teacher_salt = ''77f0'', teacher_created_at = 0\<rparr>"

definition alice_token :: string where
  "alice_token = ''00112233445566778899aabbccddeeff00112233445566778899aabbccddeeff''"

definition carol_token :: string where
  "carol_token = ''0f1e2d3c4b5a69788796a5b4c3d2e1f00f1e2d3c4b5a69788796a5b4c3d2e1f0''"

definition alice_session :: SessionToken where
  "alice_session = \<lparr>session_id = 1, session_teacher = 1, session_token = alice_token,
                     session_created_at = 0, session_expires_at = timedelta_hours 8\<rparr>"

definition carol_session :: SessionToken where
  "carol_session = \<lparr>session_id = 2, session_teacher = 2, session_token = carol_token,
                     session_created_at = 0, session_expires_at = timedelta_hours 8\<rparr>"

definition db_start :: database where
  "db_start = \<lparr>teachers = [alice, carol], students = [],
                sessions = [alice_session, carol_session], audit_logs = [],
                next_student_id = 1, next_session_id = 3, next_log_id = 1\<rparr>"

definition bob :: Student where
  "bob = \<lparr>student_id = 1, student_name = ''Bob'', student_subject = ''Math'',
           student_marks = 70, student_teacher = 1, student_created_at = 1000,
           student_updated_at = 1000\<rparr>"

definition bob_created :: AuditLog where
  "bob_created = \<lparr>log_id = 1, log_teacher = 1, log_action = ''CREATE_STUDENT'',
                   log_student_name = ''Bob'', log_subject = ''Math'', log_old_marks = None,
                   log_new_marks = Some 70, log_timestamp = 1000,
                   log_ip_address = ''10.0.0.7''\<rparr>"

definition db_bob :: database where
  "db_bob = db_start\<lparr>students := [bob], audit_logs := [bob_created],
                      next_student_id := 2, next_log_id := 2\<rparr>"

definition env_at :: "int \<Rightarrow> env" where
  "env_at t = \<lparr>now = t,
               token_hex = ''ffeeddccbbaa99887766554433221100ffeeddccbbaa99887766554433221100'',
               sha256_hexdigest = stand_in_digest, clean_ipv6_address = (\<lambda>v. None)\<rparr>"

definition api_request :: "string option \<Rightarrow> string option \<Rightarrow> api_data \<Rightarrow> request" where
  "api_request tok addr d =
     \<lparr>COOKIES_session_token = tok, X_Requested_With = Some ''XMLHttpRequest'',
      HTTP_X_FORWARDED_FOR = None, REMOTE_ADDR = addr, is_secure = True,
      POST_username = None, POST_password = None, data = Some d, request_teacher = None\<rparr>"

definition add_data :: "string \<Rightarrow> string \<Rightarrow> int \<Rightarrow> api_data" where
  "add_data n s m =
     \<lparr>data_name = Inr n, data_subject = Inr s, data_marks = Inr m,
      data_student_id = Inl ''This field is required.''\<rparr>"

definition id_data :: "int \<Rightarrow> int option \<Rightarrow> api_data" where
  "id_data i m =
     \<lparr>data_name = Inl ''This field is required.'',
      data_subject = Inl ''This field is required.'',
      data_marks = (case m of None \<Rightarrow> Inl ''This field is required.'' | Some v \<Rightarrow> Inr v),
      data_student_id = Inr i\<rparr>"

definition login_request :: "string \<Rightarrow> string \<Rightarrow> string option \<Rightarrow> request" where
  "login_request u p addr =
     \<lparr>COOKIES_session_token = None, X_Requested_With = None,
      HTTP_X_FORWARDED_FOR = None, REMOTE_ADDR = addr, is_secure = True,
      POST_username = Some u, POST_password = Some p, data = None, request_teacher = None\<rparr>"

text \<open>The session that alice is given when she logs in at time 5000.\<close>

definition new_session :: SessionToken where
  "new_session = \<lparr>session_id = 3, session_teacher = 1, session_token = token_hex (env_at 5000),
                   session_created_at = 5000, session_expires_at = 5000 + timedelta_hours 8\<rparr>"

section \<open>The invariant on marks\<close>

definition marks_ok :: "database \<Rightarrow> bool" where
  "marks_ok db = (\<forall>s\<in>set (students db). 0 \<le> student_marks s \<and> student_marks s \<le> 100)"

section \<open>Properties of the validators and of the merge rule\<close>

lemma strip_Nil: "strip [] = []"
  by (simp add: strip_def)

lemma length_strip_le: "length (strip s) \<le> length s"
proof -
  have "length (dropWhile isspace (rev (dropWhile isspace s)))
          \<le> length (rev (dropWhile isspace s))"
    by (rule length_dropWhile_le)
  also have "\<dots> \<le> length s"
    by (simp add: length_dropWhile_le)
  finally show ?thesis
    by (simp add: strip_def)
qed

text \<open>
  C1 (as amended). For existing and incoming marks in [0, 100], \<^const>\<open>calculate_new_marks\<close>
  computes their sum; it fails exactly when the sum exceeds 100, handing back the sum and
  the message \<^verbatim>\<open>Total marks cannot exceed 100\<close> (with a capital T), and otherwise succeeds
  with the sum.
\<close>

theorem calculate_new_marks_cap:
  assumes "0 \<le> a" and "a \<le> 100" and "0 \<le> b" and "b \<le> 100"
  shows "calculate_new_marks a b =
           (if a + b > 100 then (False, a + b, ''Total marks cannot exceed 100'')
            else (True, a + b, ''Marks updated successfully''))"
  by (simp add: calculate_new_marks_def Let_def)

theorem calculate_new_marks_cap_witness:
  "(0::int) \<le> 70 \<and> (70::int) \<le> 100 \<and> (0::int) \<le> 20 \<and> (20::int) \<le> 100
   \<and> calculate_new_marks 70 20 = (True, 90, ''Marks updated successfully'')"
  using calculate_new_marks_cap [of 70 20] by simp

text \<open>
  C1 as stated fails on the text of the message: at 60 and 50 the function fails, and the
  message it carries is not \<^verbatim>\<open>total marks cannot exceed 100\<close>.
\<close>

theorem calculate_new_marks_message_counterexample:
  "calculate_new_marks 60 50 = (False, 110, ''Total marks cannot exceed 100'')
   \<and> snd (snd (calculate_new_marks 60 50)) \<noteq> ''total marks cannot exceed 100''"
  by (simp add: calculate_new_marks_def Let_def)

text \<open>
  C8 (as amended). Each of the four validators (name and subject, in \<^verbatim>\<open>utils.py\<close> and in
  \<^verbatim>\<open>forms.py\<close>) accepts exactly the strings whose trimmed form has at least two characters,
  each an ASCII letter or a whitespace character (whatever \<^verbatim>\<open>\s\<close> matches: a tab or a newline
  as well as a space). What it accepts it returns trimmed. A digit or a punctuation mark
  is neither, so such input is rejected, as is input shorter than two characters once
  trimmed.
\<close>

theorem validators_accept:
  "fst (validate_name s) =
     (2 \<le> length (strip s) \<and> list_all (\<lambda>c. ascii_letter c \<or> isspace c) (strip s))
   \<and> fst (validate_subject s) =
     (2 \<le> length (strip s) \<and> list_all (\<lambda>c. ascii_letter c \<or> isspace c) (strip s))
   \<and> fst (forms_validate_name s) =
     (2 \<le> length (strip s) \<and> list_all (\<lambda>c. ascii_letter c \<or> isspace c) (strip s))
   \<and> fst (forms_validate_subject s) =
     (2 \<le> length (strip s) \<and> list_all (\<lambda>c. ascii_letter c \<or> isspace c) (strip s))
   \<and> (fst (validate_name s) \<longrightarrow> snd (validate_name s) = strip s)
   \<and> (fst (validate_subject s) \<longrightarrow> snd (validate_subject s) = strip s)"
proof -
  have nil: "s = [] \<Longrightarrow> \<not> 2 \<le> length (strip s)"
    by (simp add: strip_Nil)
  have ne: "2 \<le> length (strip s) \<Longrightarrow> strip s \<noteq> []"
    by auto
  show ?thesis
    using nil ne
    by (auto simp: validate_name_def validate_subject_def forms_validate_name_def
        forms_validate_subject_def re_match_letters_def)
qed

theorem validators_accept_witness:
  "fst (validate_name ''  Bob Ray '') \<and> snd (validate_name ''  Bob Ray '') = ''Bob Ray''
   \<and> \<not> fst (validate_name ''Bob2'') \<and> \<not> fst (validate_subject ''Math!'')
   \<and> \<not> fst (validate_name '' B '')"
proof -
  have s1: "strip ''  Bob Ray '' = ''Bob Ray''"
    by (simp add: strip_def isspace_def)
  have s2: "strip ''Bob2'' = ''Bob2''" and s3: "strip ''Math!'' = ''Math!''"
    and s4: "strip '' B '' = ''B''"
    by (simp_all add: strip_def isspace_def)
  show ?thesis
    using validators_accept [of "''  Bob Ray ''"] validators_accept [of "''Bob2''"]
      validators_accept [of "''Math!''"] validators_accept [of "'' B ''"]
    by (simp add: s1 s2 s3 s4 ascii_letter_def isspace_def)
qed

text \<open>
  C8 as stated fails on whitespace other than the space: the name made of \<^verbatim>\<open>a\<close>, a tab and
  \<^verbatim>\<open>b\<close> is accepted, is its own trimmed form, and its tab is neither an ASCII letter nor a
  space.
\<close>

theorem validators_tab_counterexample:
  "fst (validate_name [CHR ''a'', CHR 0x09, CHR ''b''])
   \<and> strip [CHR ''a'', CHR 0x09, CHR ''b''] = [CHR ''a'', CHR 0x09, CHR ''b'']
   \<and> \<not> ascii_letter (CHR 0x09) \<and> CHR 0x09 \<noteq> CHR '' ''"
  by (simp add: validate_name_def strip_def isspace_def ascii_letter_def re_match_letters_def)

section \<open>The marks of every student stay in range\<close>

lemma objects_get_Inr:
  "objects_get p rows = Inr r \<Longrightarrow> filter p rows = [r]"
  by (auto simp: objects_get_def split: list.splits)

lemma objects_get_Inr_mem:
  assumes "objects_get p rows = Inr r"
  shows "r \<in> set rows" and "p r"
proof -
  have "r \<in> set (filter p rows)" using objects_get_Inr [OF assms] by simp
  then show "r \<in> set rows" and "p r" by auto
qed

lemma validate_marks_Inr:
  "validate_marks (Some v) = Inr m \<Longrightarrow> m = v \<and> 0 \<le> v \<and> v \<le> 100"
  by (auto simp: validate_marks_def split: if_splits)

lemma run_field_Inr:
  "run_field r f = Inr v \<Longrightarrow> \<exists>x. r = Inr x \<and> f x = Inr v"
  by (cases r) (simp_all add: run_field_def)

lemma create_is_valid_Inr:
  assumes "StudentCreateUpdateSerializer_is_valid d = Inr (n, s, m)"
  shows "run_field (data_name d) StudentSerializer_validate_name = Inr n"
    and "run_field (data_subject d) StudentSerializer_validate_subject = Inr s"
    and "run_field (data_marks d) StudentSerializer_validate_marks = Inr m"
  using assms
  by (simp_all add: StudentCreateUpdateSerializer_is_valid_def Let_def split: sum.splits)

lemma create_is_valid_marks:
  assumes "StudentCreateUpdateSerializer_is_valid d = Inr (n, s, m)"
  shows "0 \<le> m \<and> m \<le> 100 \<and> data_marks d = Inr m"
proof -
  obtain x where x: "data_marks d = Inr x" "StudentSerializer_validate_marks x = Inr m"
    using run_field_Inr [OF create_is_valid_Inr(3) [OF assms]] by blast
  from x(2) have "m = x \<and> 0 \<le> x \<and> x \<le> 100"
    unfolding StudentSerializer_validate_marks_def by (rule validate_marks_Inr)
  with x(1) show ?thesis by simp
qed

lemma update_is_valid_Inr:
  assumes "MarksUpdateSerializer_is_valid d = Inr (i, m)"
  shows "data_student_id d = Inr i"
    and "run_field (data_marks d) MarksUpdateSerializer_validate_marks = Inr m"
  using assms
  by (simp_all add: MarksUpdateSerializer_is_valid_def Let_def split: sum.splits)

lemma update_is_valid_marks:
  assumes "MarksUpdateSerializer_is_valid d = Inr (i, m)"
  shows "0 \<le> m \<and> m \<le> 100 \<and> data_student_id d = Inr i \<and> data_marks d = Inr m"
proof -
  obtain x where x: "data_marks d = Inr x" "MarksUpdateSerializer_validate_marks x = Inr m"
    using run_field_Inr [OF update_is_valid_Inr(2) [OF assms]] by blast
  from x(2) have "m = x \<and> 0 \<le> x \<and> x \<le> 100"
    unfolding MarksUpdateSerializer_validate_marks_def by (rule validate_marks_Inr)
  with x(1) update_is_valid_Inr(1) [OF assms] show ?thesis by simp
qed

lemma AuditLog_create_students:
  "students (snd (AuditLog_create e t a n s om nm ip db)) = students db"
  by (simp add: AuditLog_create_def Let_def split: option.splits)

lemma AuditLog_create_sessions:
  "sessions (snd (AuditLog_create e t a n s om nm ip db)) = sessions db"
  by (simp add: AuditLog_create_def Let_def split: option.splits)

lemma marks_ok_cong: "students db' = students db \<Longrightarrow> marks_ok db' = marks_ok db"
  by (simp add: marks_ok_def)

lemma marks_ok_AuditLog_create:
  "marks_ok (snd (AuditLog_create e t a n s om nm ip db)) = marks_ok db"
  by (rule marks_ok_cong) (simp add: AuditLog_create_students)

lemma marks_ok_Student_save:
  "marks_ok db \<Longrightarrow> 0 \<le> student_marks st \<Longrightarrow> student_marks st \<le> 100 \<Longrightarrow>
     marks_ok (Student_save e st db)"
  by (auto simp: marks_ok_def Student_save_def)

lemma marks_ok_Student_delete:
  "marks_ok db \<Longrightarrow> marks_ok (Student_delete st db)"
  by (auto simp: marks_ok_def Student_delete_def)

lemma marks_ok_Student_create:
  "marks_ok db \<Longrightarrow> 0 \<le> m \<Longrightarrow> m \<le> 100 \<Longrightarrow>
     marks_ok (snd (Student_create e n s m t db))"
  by (auto simp: marks_ok_def Student_create_def Let_def)

lemma calculate_new_marks_success:
  "calculate_new_marks a b = (True, tot, msg) \<Longrightarrow> tot = a + b \<and> a + b \<le> 100"
  by (auto simp: calculate_new_marks_def Let_def split: if_splits)

lemma marks_ok_serializer_create:
  assumes ok: "marks_ok db" and m: "0 \<le> m" "m \<le> 100"
  shows "marks_ok (snd (StudentCreateUpdateSerializer_create e t ip (n, s, m) db))"
proof (cases "objects_get (\<lambda>x. student_name x = n \<and> student_subject x = s \<and> student_teacher x = t) (students db)")
  case (Inl ex)
  show ?thesis
  proof (cases "ex = DoesNotExist")
    case True
    have c: "marks_ok (snd (Student_create e n s m t db))"
      using ok m by (rule marks_ok_Student_create)
    obtain r1 db1 where sc: "Student_create e n s m t db = (r1, db1)" by (cases "Student_create e n s m t db")
    with c have ok1: "marks_ok db1" by simp
    obtain r2 db2 where al: "AuditLog_create e t ''CREATE_STUDENT'' n s None (Some m) ip db1 = (r2, db2)"
      by (cases "AuditLog_create e t ''CREATE_STUDENT'' n s None (Some m) ip db1")
    have ok2: "marks_ok db2" using marks_ok_AuditLog_create [of e t "''CREATE_STUDENT''" n s None "Some m" ip db1] al ok1 by simp
    show ?thesis
      using Inl True sc al ok1 ok2
      by (simp add: StudentCreateUpdateSerializer_create_def split: sum.splits)
  next
    case False
    with Inl ok show ?thesis
      by (simp add: StudentCreateUpdateSerializer_create_def)
  qed
next
  case (Inr st)
  have st: "st \<in> set (students db)" using objects_get_Inr_mem(1) [OF Inr] .
  then have a: "0 \<le> student_marks st" using ok by (simp add: marks_ok_def)
  obtain success tot msg where c: "calculate_new_marks (student_marks st) m = (success, tot, msg)"
    by (cases "calculate_new_marks (student_marks st) m") auto
  show ?thesis
  proof (cases success)
    case False
    then show ?thesis using Inr c ok by (simp add: StudentCreateUpdateSerializer_create_def)
  next
    case True
    with c have t: "tot = student_marks st + m" "student_marks st + m \<le> 100"
      using calculate_new_marks_success [of "student_marks st" m tot msg] by auto
    let ?db1 = "Student_save e (st\<lparr>student_marks := tot\<rparr>) db"
    have ok1: "marks_ok ?db1"
      using ok a m t by (intro marks_ok_Student_save) simp_all
    obtain r2 db2 where al: "AuditLog_create e t ''UPDATE_MARKS'' n s (Some (student_marks st)) (Some tot) ip ?db1 = (r2, db2)"
      by (cases "AuditLog_create e t ''UPDATE_MARKS'' n s (Some (student_marks st)) (Some tot) ip ?db1")
    have ok2: "marks_ok db2"
      using marks_ok_AuditLog_create [of e t "''UPDATE_MARKS''" n s "Some (student_marks st)" "Some tot" ip ?db1] al ok1 by simp
    show ?thesis
      using Inr c True al ok2
      by (simp add: StudentCreateUpdateSerializer_create_def Let_def split: sum.splits)
  qed
qed

lemma atomic_snd:
  "snd (atomic f db) = db \<or> snd (atomic f db) = snd (f db)"
  by (cases "f db") (auto simp: atomic_def split: sum.splits)

lemma marks_ok_atomic:
  "marks_ok db \<Longrightarrow> marks_ok (snd (f db)) \<Longrightarrow> marks_ok (snd (atomic f db))"
  using atomic_snd [of f db] by auto


lemma create_view_snd:
  "snd (StudentCreateView_post e r db) = db
   \<or> (\<exists>t n s m. 0 \<le> m \<and> m \<le> 100
         \<and> snd (StudentCreateView_post e r db)
             = snd (atomic (StudentCreateUpdateSerializer_create e t (get_client_ip r) (n, s, m)) db))"
proof (cases "data r")
  case None
  then show ?thesis by (simp add: StudentCreateView_post_def)
next
  case (Some d)
  note d = this
  show ?thesis
  proof (cases "request_teacher r")
    case None
    with d show ?thesis by (simp add: StudentCreateView_post_def)
  next
    case (Some t)
    note t = this
    show ?thesis
    proof (cases "StudentCreateUpdateSerializer_is_valid d")
      case (Inl errs)
      with d t show ?thesis by (simp add: StudentCreateView_post_def)
    next
      case (Inr v)
      obtain n s m where v: "v = (n, s, m)" by (cases v) auto
      have m: "0 \<le> m \<and> m \<le> 100" using create_is_valid_marks Inr v by blast
      have "snd (StudentCreateView_post e r db)
              = snd (atomic (StudentCreateUpdateSerializer_create e t (get_client_ip r) (n, s, m)) db)"
        using d t Inr v
        by (simp add: StudentCreateView_post_def Let_def split: prod.splits sum.splits)
      with m show ?thesis by blast
    qed
  qed
qed

lemma marks_ok_create_view:
  assumes "marks_ok db"
  shows "marks_ok (snd (StudentCreateView_post e r db))"
proof -
  from create_view_snd [of e r db] show ?thesis
  proof
    assume "snd (StudentCreateView_post e r db) = db"
    with assms show ?thesis by simp
  next
    assume "\<exists>t n s m. 0 \<le> m \<and> m \<le> 100
         \<and> snd (StudentCreateView_post e r db)
             = snd (atomic (StudentCreateUpdateSerializer_create e t (get_client_ip r) (n, s, m)) db)"
    then obtain t n s m where m: "0 \<le> m" "m \<le> 100"
      and eq: "snd (StudentCreateView_post e r db)
             = snd (atomic (StudentCreateUpdateSerializer_create e t (get_client_ip r) (n, s, m)) db)"
      by blast
    have "marks_ok (snd (StudentCreateUpdateSerializer_create e t (get_client_ip r) (n, s, m) db))"
      using assms m by (rule marks_ok_serializer_create)
    with assms have "marks_ok (snd (atomic (StudentCreateUpdateSerializer_create e t (get_client_ip r) (n, s, m)) db))"
      by (rule marks_ok_atomic)
    with eq show ?thesis by simp
  qed
qed

lemma marks_ok_update_block:
  assumes ok: "marks_ok db" and m: "0 \<le> m" "m \<le> 100"
  shows "marks_ok (snd (update_block e r sid m db))"
proof (cases "request_teacher r")
  case None
  with ok show ?thesis by (simp add: update_block_def)
next
  case (Some t)
  show ?thesis
  proof (cases "get_object_or_404 (\<lambda>s. student_id s = sid \<and> student_teacher s = t) (students db)")
    case (Inl ex)
    with Some ok show ?thesis by (simp add: update_block_def)
  next
    case (Inr st)
    let ?db1 = "Student_save e (st\<lparr>student_marks := m\<rparr>) db"
    have ok1: "marks_ok ?db1" using ok m by (intro marks_ok_Student_save) simp_all
    let ?al = "AuditLog_create e t ''INLINE_UPDATE'' (student_name st) (student_subject st)
                 (Some (student_marks st)) (Some m) (get_client_ip r) ?db1"
    have ok2: "marks_ok (snd ?al)" using ok1 by (simp add: marks_ok_AuditLog_create)
    have "snd (update_block e r sid m db) = snd ?al"
      using Some Inr by (simp add: update_block_def Let_def split: prod.splits sum.splits)
    with ok2 show ?thesis by simp
  qed
qed

lemma marks_ok_update_view:
  assumes ok: "marks_ok db"
  shows "marks_ok (snd (StudentUpdateView_post e r db))"
proof (cases "data r")
  case None
  with ok show ?thesis by (simp add: StudentUpdateView_post_def)
next
  case (Some d)
  show ?thesis
  proof (cases "MarksUpdateSerializer_is_valid d")
    case (Inl errs)
    with Some ok show ?thesis by (simp add: StudentUpdateView_post_def)
  next
    case (Inr v)
    obtain sid m where v: "v = (sid, m)" by (cases v)
    have m: "0 \<le> m" "m \<le> 100" using update_is_valid_marks Inr v by blast+
    have "marks_ok (snd (atomic (update_block e r sid m) db))"
      using ok marks_ok_update_block [OF ok m] by (rule marks_ok_atomic)
    moreover have "snd (StudentUpdateView_post e r db) = snd (atomic (update_block e r sid m) db)"
      using Some Inr v by (simp add: StudentUpdateView_post_def Let_def split: prod.splits sum.splits)
    ultimately show ?thesis by simp
  qed
qed

lemma marks_ok_delete_block:
  assumes ok: "marks_ok db"
  shows "marks_ok (snd (delete_block e r sid db))"
proof (cases "request_teacher r")
  case None
  with ok show ?thesis by (simp add: delete_block_def)
next
  case (Some t)
  show ?thesis
  proof (cases "get_object_or_404 (\<lambda>s. student_id s = sid \<and> student_teacher s = t) (students db)")
    case (Inl ex)
    with Some ok show ?thesis by (simp add: delete_block_def)
  next
    case (Inr st)
    let ?al = "AuditLog_create e t ''DELETE_STUDENT'' (student_name st) (student_subject st)
                 (Some (student_marks st)) None (get_client_ip r) db"
    have ok2: "marks_ok (snd ?al)" using ok by (simp add: marks_ok_AuditLog_create)
    then have ok3: "marks_ok (Student_delete st (snd ?al))" by (rule marks_ok_Student_delete)
    have "snd (delete_block e r sid db) = snd ?al \<or> snd (delete_block e r sid db) = Student_delete st (snd ?al)"
      using Some Inr by (simp add: delete_block_def Let_def split: prod.splits sum.splits)
    with ok2 ok3 show ?thesis by auto
  qed
qed

lemma marks_ok_delete_view:
  assumes ok: "marks_ok db"
  shows "marks_ok (snd (StudentDeleteView_post e r db))"
proof (cases "data r")
  case None
  with ok show ?thesis by (simp add: StudentDeleteView_post_def)
next
  case (Some d)
  show ?thesis
  proof (cases "StudentDeleteSerializer_is_valid d")
    case (Inl errs)
    with Some ok show ?thesis by (simp add: StudentDeleteView_post_def)
  next
    case (Inr sid)
    have "marks_ok (snd (atomic (delete_block e r sid) db))"
      using ok marks_ok_delete_block [OF ok] by (rule marks_ok_atomic)
    moreover have "snd (StudentDeleteView_post e r db) = snd (atomic (delete_block e r sid) db)"
      using Some Inr by (simp add: StudentDeleteView_post_def Let_def split: prod.splits sum.splits)
    ultimately show ?thesis by simp
  qed
qed

lemma create_token_students:
  "students (snd (create_token e t db)) = students db"
  by (simp add: create_token_def Let_def)

lemma login_students: "students (snd (LoginView_post e r db)) = students db"
proof (cases "LoginForm_is_valid (POST_username r) (POST_password r)")
  case (Inl errs)
  then show ?thesis by (simp add: LoginView_post_def)
next
  case (Inr v)
  obtain u p where v: "v = (u, p)" by (cases v)
  show ?thesis
  proof (cases "objects_get (\<lambda>t. teacher_username t = u) (teachers db)")
    case (Inl ex)
    with Inr v show ?thesis by (simp add: LoginView_post_def)
  next
    case (Inr t)
    note t = this
    show ?thesis
    proof (cases "check_password e t p")
      case False
      with \<open>LoginForm_is_valid (POST_username r) (POST_password r) = Inr v\<close> v t show ?thesis
        by (simp add: LoginView_post_def)
    next
      case True
      obtain r1 db1 where ct: "create_token e (teacher_id t) db = (r1, db1)"
        by (cases "create_token e (teacher_id t) db")
      have s1: "students db1 = students db" using create_token_students [of e "teacher_id t" db] ct by simp
      obtain r2 db2 where al: "AuditLog_create e (teacher_id t) ''LOGIN'' ''N/A'' ''N/A'' None None (get_client_ip r) db1 = (r2, db2)"
        by (cases "AuditLog_create e (teacher_id t) ''LOGIN'' ''N/A'' ''N/A'' None None (get_client_ip r) db1")
      have s2: "students db2 = students db"
        using AuditLog_create_students [of e "teacher_id t" "''LOGIN''" "''N/A''" "''N/A''" None None "get_client_ip r" db1] al s1 by simp
      show ?thesis
        using \<open>LoginForm_is_valid (POST_username r) (POST_password r) = Inr v\<close> v t True ct al s1 s2
        by (simp add: LoginView_post_def split: sum.splits)
    qed
  qed
qed

lemma logout_students: "students (snd (LogoutView_post e r db)) = students db"
proof -
  have "\<And>x s. students (SessionToken_delete s x) = students x"
    by (simp add: SessionToken_delete_def)
  then show ?thesis
    by (auto simp: LogoutView_post_def Let_def AuditLog_create_students
        split: option.splits sum.splits prod.splits
        dest: arg_cong [where f = "\<lambda>p. students (snd p)"])
qed

lemma require_authentication_snd:
  "snd (require_authentication view e r db) = db
   \<or> (\<exists>t. snd (require_authentication view e r db) = snd (view e (r\<lparr>request_teacher := t\<rparr>) db))"
  by (auto simp: require_authentication_def split: sum.splits prod.splits)

lemma marks_ok_dispatch:
  assumes ok: "marks_ok db"
  shows "marks_ok (snd (dispatch rt e r db))"
proof (cases rt)
  case login
  then show ?thesis using ok marks_ok_cong [OF login_students [of e r db]] by (simp add: dispatch_def)
next
  case logout
  then show ?thesis using ok marks_ok_cong [OF logout_students [of e r db]] by (simp add: dispatch_def)
next
  case add_student
  then show ?thesis
    using ok require_authentication_snd [of StudentCreateView_post e r db] marks_ok_create_view [OF ok]
    by (auto simp: dispatch_def)
next
  case update_marks
  then show ?thesis
    using ok require_authentication_snd [of StudentUpdateView_post e r db] marks_ok_update_view [OF ok]
    by (auto simp: dispatch_def)
next
  case delete_student
  then show ?thesis
    using ok require_authentication_snd [of StudentDeleteView_post e r db] marks_ok_delete_view [OF ok]
    by (auto simp: dispatch_def)
qed

text \<open>
  C6. In every store that requests can produce from a store without students, the marks of
  every student lie in [0, 100]: creation, merge and inline update write validated marks
  only, and the other routes write no marks.
\<close>

theorem marks_within_bounds:
  assumes "reachable db"
  shows "\<forall>s\<in>set (students db). 0 \<le> student_marks s \<and> student_marks s \<le> 100"
proof -
  from assms have "marks_ok db"
  proof (induction rule: reachable.induct)
    case (initial db)
    then show ?case by (simp add: marks_ok_def)
  next
    case (request db r e request result db')
    from marks_ok_dispatch [OF request.IH, of r e request] request.hyps(2)
    show ?case by simp
  qed
  then show ?thesis by (simp add: marks_ok_def)
qed

section \<open>The scenario, evaluated\<close>

lemmas model_defs = dispatch_def require_authentication_def check_auth_def objects_get_def is_valid_def
  StudentCreateView_post_def StudentCreateUpdateSerializer_is_valid_def run_field_def
  StudentSerializer_validate_name_def StudentSerializer_validate_subject_def
  StudentSerializer_validate_marks_def MarksUpdateSerializer_validate_marks_def
  MarksUpdateSerializer_is_valid_def StudentDeleteSerializer_is_valid_def
  StudentUpdateView_post_def StudentDeleteView_post_def update_block_def delete_block_def
  get_object_or_404_def Student_save_def Student_delete_def errors_json_def
  validate_name_def validate_subject_def validate_marks_def html_escape_def escape_char_def
  strip_def isspace_def re_match_letters_def ascii_letter_def atomic_def
  StudentCreateUpdateSerializer_create_def calculate_new_marks_def
  Student_create_def AuditLog_create_def get_client_ip_def field_errors_def
  StudentSerializer_data_def timedelta_hours_def
  LoginView_post_def LogoutView_post_def LoginForm_is_valid_def CharField_clean_def
  clean_username_def clean_password_def check_password_def create_token_def
  SessionToken_delete_def get_prep_value_def

lemmas scenario_defs = env_at_def api_request_def add_data_def id_data_def login_request_def
  db_start_def db_bob_def bob_def bob_created_def alice_session_def carol_session_def
  alice_token_def carol_token_def alice_def carol_def stand_in_digest_def

lemma add_bob:
  "dispatch add_student (env_at 1000)
     (api_request (Some alice_token) (Some ''10.0.0.7'') (add_data ''Bob'' ''Math'' 70)) db_start
   = (Inr (Response
        (JObj [(''success'', JBool True), (''message'', JStr ''Student Bob added successfully''),
               (''student_id'', JInt 1), (''new_marks'', JInt 70),
               (''student'', StudentSerializer_data bob)]) 201), db_bob)"
  by (simp add: model_defs scenario_defs Let_def)

lemma reachable_db_bob: "reachable db_bob"
proof -
  have "reachable db_start" by (rule reachable.initial) (simp add: db_start_def)
  then show ?thesis using add_bob by (rule reachable.request)
qed

text \<open>The store after Bob's creation is one that requests produce, with Bob's 70 marks.\<close>

theorem marks_within_bounds_witness:
  "reachable db_bob \<and> students db_bob = [bob] \<and> student_marks bob = 70
   \<and> 0 \<le> student_marks bob \<and> student_marks bob \<le> 100"
proof -
  have "bob \<in> set (students db_bob)"
    by (simp add: db_bob_def)
  with marks_within_bounds [OF reachable_db_bob]
  have "0 \<le> student_marks bob \<and> student_marks bob \<le> 100"
    by (rule bspec)
  then show ?thesis
    using reachable_db_bob by (simp add: db_bob_def bob_def)
qed

text \<open>
  C2. Mutation and audit entry are to commit together or not at all, for login and logout
  as for the three student routes. The login view opens no transaction: when alice logs in
  with the right password from a request without a client address, her old session is
  deleted and a new one is stored, the audit insert then raises, and the store keeps the
  new session without any \<^verbatim>\<open>LOGIN\<close> entry. The inline update, at the same missing address, is
  rolled back whole by its atomic block.
\<close>

theorem login_commits_session_without_audit_entry:
  "LoginView_post (env_at 5000) (login_request ''alice'' ''wonderland'' None) db_start
     = (Inl IntegrityError,
        db_start\<lparr>sessions :=
                    [carol_session,
                     \<lparr>session_id = 3, session_teacher = 1, session_token = token_hex (env_at 5000),
                      session_created_at = 5000,
                      session_expires_at = 5000 + timedelta_hours 8\<rparr>],
                  next_session_id := 4\<rparr>)
   \<and> audit_logs db_start = []
   \<and> dispatch update_marks (env_at 5000)
        (api_request (Some alice_token) None (id_data 1 (Some 95))) db_bob
     = (Inr (Response (JObj [(''success'', JBool False),
                             (''error'', JStr ''Failed to update marks'')]) 500), db_bob)"
  by (simp add: model_defs scenario_defs Let_def)

text \<open>
  C5. Carol deletes or updates student 1, who is alice's, and student 9, who does not
  exist. The store is unchanged and the four answers do not tell the two cases apart, but
  they are the generic failure with status 500, not a not-found result: the
  \<^verbatim>\<open>Http404\<close> of \<^verbatim>\<open>get_object_or_404\<close> is caught by the view's own \<^verbatim>\<open>except Exception\<close>.
\<close>

theorem foreign_or_missing_student_gives_500:
  "dispatch delete_student (env_at 2000)
     (api_request (Some carol_token) (Some ''10.0.0.9'') (id_data 1 None)) db_bob
     = (Inr (Response (JObj [(''success'', JBool False),
                             (''error'', JStr ''Failed to delete student'')]) 500), db_bob)
   \<and> dispatch delete_student (env_at 2000)
     (api_request (Some carol_token) (Some ''10.0.0.9'') (id_data 9 None)) db_bob
     = (Inr (Response (JObj [(''success'', JBool False),
                             (''error'', JStr ''Failed to delete student'')]) 500), db_bob)
   \<and> dispatch update_marks (env_at 2000)
     (api_request (Some carol_token) (Some ''10.0.0.9'') (id_data 1 (Some 50))) db_bob
     = (Inr (Response (JObj [(''success'', JBool False),
                             (''error'', JStr ''Failed to update marks'')]) 500), db_bob)
   \<and> dispatch update_marks (env_at 2000)
     (api_request (Some carol_token) (Some ''10.0.0.9'') (id_data 9 (Some 50))) db_bob
     = (Inr (Response (JObj [(''success'', JBool False),
                             (''error'', JStr ''Failed to update marks'')]) 500), db_bob)"
  by (simp add: model_defs scenario_defs Let_def)

section \<open>The merge that would exceed the cap\<close>

lemma gate_pass:
  "check_auth e r db = Inr (True, t) \<Longrightarrow>
     require_authentication view e r db = view e (r\<lparr>request_teacher := t\<rparr>) db"
  by (simp add: require_authentication_def)

lemma get_client_ip_teacher:
  "get_client_ip (r\<lparr>request_teacher := t\<rparr>) = get_client_ip r"
  by (simp add: get_client_ip_def split: option.splits)

lemma serializer_create_over_cap:
  assumes st: "st \<in> set (students db)" "student_name st = name" "student_subject st = subject"
      "student_teacher st = teacher"
    and over: "student_marks st + b > 100"
  shows "\<exists>ex. StudentCreateUpdateSerializer_create e teacher ip (name, subject, b) db = (Inl ex, db)"
proof -
  let ?p = "\<lambda>s. student_name s = name \<and> student_subject s = subject \<and> student_teacher s = teacher"
  have mem: "st \<in> set (filter ?p (students db))" using st by simp
  show ?thesis
  proof (cases "objects_get ?p (students db)")
    case (Inl ex)
    have "ex \<noteq> DoesNotExist"
    proof (cases "filter ?p (students db)")
      case Nil
      with mem show ?thesis by simp
    next
      case (Cons x xs)
      with Inl show ?thesis by (cases xs) (auto simp: objects_get_def)
    qed
    with Inl show ?thesis by (simp add: StudentCreateUpdateSerializer_create_def)
  next
    case (Inr x)
    have "filter ?p (students db) = [x]" using Inr by (rule objects_get_Inr)
    with mem have "x = st" by simp
    with Inr over show ?thesis
      by (simp add: StudentCreateUpdateSerializer_create_def calculate_new_marks_def Let_def)
  qed
qed

text \<open>
  C3. An authenticated teacher submits marks \<open>b\<close> under the name and subject of one of
  their students, whose marks \<open>a\<close> satisfy \<open>a + b > 100\<close>. The request fails (with status
  500 when \<open>b\<close> is itself valid, since the view catches the serializer's validation error
  as any exception; with status 400 otherwise), and the store is the one before the
  request: the student's marks are still \<open>a\<close> and no audit entry was appended.
\<close>

theorem merge_over_cap_rejected:
  assumes auth: "check_auth e request db = Inr (True, Some teacher)"
    and d: "data request = Some d"
    and n: "run_field (data_name d) StudentSerializer_validate_name = Inr name"
    and s: "run_field (data_subject d) StudentSerializer_validate_subject = Inr subject"
    and b: "data_marks d = Inr b"
    and st: "st \<in> set (students db)" "student_name st = name" "student_subject st = subject"
      "student_teacher st = teacher"
    and over: "student_marks st + b > 100"
  shows "dispatch add_student e request db =
           (Inr (if 0 \<le> b \<and> b \<le> 100
                 then Response (JObj [(''success'', JBool False),
                                      (''error'', JStr ''Server error occurred'')]) 500
                 else Response (JObj [(''success'', JBool False),
                                      (''error'', JStr ''Invalid form data''),
                                      (''form_errors'',
                                       errors_json [(''marks'', ''Marks must be between 0 and 100'')])])
                        400), db)"
proof (cases "0 \<le> b \<and> b \<le> 100")
  case True
  then have valid: "StudentCreateUpdateSerializer_is_valid d = Inr (name, subject, b)"
    using n s b
    by (simp add: StudentCreateUpdateSerializer_is_valid_def Let_def run_field_def
        StudentSerializer_validate_marks_def validate_marks_def)
  obtain ex where "StudentCreateUpdateSerializer_create e teacher (get_client_ip request)
                     (name, subject, b) db = (Inl ex, db)"
    using serializer_create_over_cap [OF st over] by blast
  then have "atomic (StudentCreateUpdateSerializer_create e teacher (get_client_ip request)
                     (name, subject, b)) db = (Inl ex, db)"
    by (simp add: atomic_def)
  then show ?thesis
    using True d valid
    by (simp add: dispatch_def gate_pass [OF auth] StudentCreateView_post_def
        get_client_ip_teacher)
next
  case False
  then have "b < 0 \<or> 100 < b" by arith
  then have "StudentCreateUpdateSerializer_is_valid d
               = Inl [(''marks'', ''Marks must be between 0 and 100'')]"
    using n s b
    by (simp add: StudentCreateUpdateSerializer_is_valid_def Let_def run_field_def
        StudentSerializer_validate_marks_def validate_marks_def field_errors_def)
  then show ?thesis
    using False d
    by (simp add: dispatch_def gate_pass [OF auth] StudentCreateView_post_def)
qed

lemma check_auth_alice:
  "check_auth (env_at 2000) (api_request (Some alice_token) a d) db_bob = Inr (True, Some 1)"
  by (simp add: model_defs scenario_defs)

theorem merge_over_cap_rejected_witness:
  "bob \<in> set (students db_bob) \<and> student_marks bob + 40 > 100
   \<and> dispatch add_student (env_at 2000)
        (api_request (Some alice_token) (Some ''10.0.0.7'') (add_data ''Bob'' ''Math'' 40)) db_bob
     = (Inr (Response (JObj [(''success'', JBool False),
                             (''error'', JStr ''Server error occurred'')]) 500), db_bob)"
proof -
  let ?r = "api_request (Some alice_token) (Some ''10.0.0.7'') (add_data ''Bob'' ''Math'' 40)"
  have a: "check_auth (env_at 2000) ?r db_bob = Inr (True, Some 1)" by (rule check_auth_alice)
  have d: "data ?r = Some (add_data ''Bob'' ''Math'' 40)" by (simp add: api_request_def)
  have n: "run_field (data_name (add_data ''Bob'' ''Math'' 40)) StudentSerializer_validate_name = Inr ''Bob''"
    by (simp add: model_defs add_data_def)
  have s: "run_field (data_subject (add_data ''Bob'' ''Math'' 40)) StudentSerializer_validate_subject = Inr ''Math''"
    by (simp add: model_defs add_data_def)
  have b: "data_marks (add_data ''Bob'' ''Math'' 40) = Inr 40" by (simp add: add_data_def)
  have st: "bob \<in> set (students db_bob)" by (simp add: db_bob_def)
  have f: "student_name bob = ''Bob''" "student_subject bob = ''Math''" "student_teacher bob = 1"
    by (simp_all add: bob_def)
  have over: "student_marks bob + 40 > 100" by (simp add: bob_def)
  show ?thesis
    using merge_over_cap_rejected [OF a d n s b st f over] st over by simp
qed

section \<open>The inline update\<close>








section \<open>Sessions\<close>

lemma create_token_Inr:
  assumes "create_token e teacher db = (Inr session, db')"
  shows "session = \<lparr>session_id = next_session_id db, session_teacher = teacher,
                     session_token = token_hex e, session_created_at = now e,
                     session_expires_at = now e + timedelta_hours 8\<rparr>"
    and "sessions db' = filter (\<lambda>s. session_teacher s \<noteq> teacher) (sessions db) @ [session]"
    and "filter (\<lambda>s. session_token s = token_hex e)
           (filter (\<lambda>s. session_teacher s \<noteq> teacher) (sessions db)) = []"
  using assms
  by (auto simp: create_token_def Let_def list_ex_iff filter_empty_conv split: if_splits)

lemma check_auth_found:
  assumes "COOKIES_session_token r = Some t" and "t \<noteq> []"
    and "filter (\<lambda>s. session_token s = t) (sessions db) = [s]"
  shows "check_auth e r db
           = Inr (if now e < session_expires_at s then (True, Some (session_teacher s))
                  else (False, None))"
  using assms by (simp add: check_auth_def objects_get_def is_valid_def)

lemma check_auth_missing:
  assumes "COOKIES_session_token r = Some t"
    and "filter (\<lambda>s. session_token s = t) (sessions db) = []"
  shows "check_auth e r db = Inr (False, None)"
  using assms by (simp add: check_auth_def objects_get_def)


lemma filter_SessionToken_delete:
  "sessions (SessionToken_delete x db) = filter (\<lambda>s. session_id s \<noteq> session_id x) (sessions db)"
  by (simp add: SessionToken_delete_def)

lemma logout_sessions:
  assumes "COOKIES_session_token r = Some t" and "t \<noteq> []"
    and "filter (\<lambda>s. session_token s = t) (sessions db) = [x]"
    and "get_client_ip r = Some a" and "a \<noteq> []"
  shows "sessions (snd (LogoutView_post e r db))
           = filter (\<lambda>s. session_id s \<noteq> session_id x) (sessions db)"
  using assms
  by (simp add: LogoutView_post_def objects_get_def AuditLog_create_def Let_def
      SessionToken_delete_def)

text \<open>
  C7. Let \<^const>\<open>create_token\<close> succeed for a teacher at time \<open>now e\<close>, and let a request carry
  the new token. The gate accepts it at once, and at every instant before
  \<open>now e\<close> plus eight hours; it rejects it from that instant on, and at any instant after the
  session row is deleted, by \<^verbatim>\<open>session.delete()\<close> or by a logout that completes. After the
  creation the teacher's rows are the new session alone, so a store with at most one
  session per teacher stays one.
\<close>

theorem session_token_lifecycle:
  assumes created: "create_token e teacher db = (Inr session, db')"
    and tok: "token_hex e \<noteq> []"
    and cookie: "COOKIES_session_token request = Some (session_token session)"
  shows "check_auth e request db' = Inr (True, Some teacher)
       \<and> (\<forall>e'. now e' < now e + timedelta_hours 8 \<longrightarrow>
                 check_auth e' request db' = Inr (True, Some teacher))
       \<and> (\<forall>e'. now e + timedelta_hours 8 \<le> now e' \<longrightarrow>
                 check_auth e' request db' = Inr (False, None))
       \<and> (\<forall>e'. check_auth e' request (SessionToken_delete session db') = Inr (False, None))
       \<and> (\<forall>e' e'' a. get_client_ip request = Some a \<and> a \<noteq> [] \<longrightarrow>
                 check_auth e'' request (snd (LogoutView_post e' request db'))
                   = Inr (False, None))
       \<and> filter (\<lambda>s. session_teacher s = teacher) (sessions db') = [session]
       \<and> ((\<forall>t. length (filter (\<lambda>s. session_teacher s = t) (sessions db)) \<le> 1) \<longrightarrow>
            (\<forall>t. length (filter (\<lambda>s. session_teacher s = t) (sessions db')) \<le> 1))"
proof -
  let ?others = "filter (\<lambda>s. session_teacher s \<noteq> teacher) (sessions db)"
  note c = create_token_Inr [OF created]
  have st: "session_token session = token_hex e" "session_teacher session = teacher"
    "session_expires_at session = now e + timedelta_hours 8"
    using c(1) by simp_all
  have ne: "session_token session \<noteq> []" using st(1) tok by simp
  have found: "filter (\<lambda>s. session_token s = session_token session) (sessions db') = [session]"
    using c(2,3) st(1) by simp
  have valid: "check_auth e' request db'
                 = Inr (if now e' < now e + timedelta_hours 8 then (True, Some teacher)
                        else (False, None))" for e'
    using check_auth_found [OF cookie ne found, of e'] st by simp
  have h: "(0::int) < timedelta_hours 8" by (simp add: timedelta_hours_def)
  have gone: "filter (\<lambda>s. session_token s = session_token session)
                (filter (\<lambda>s. session_id s \<noteq> session_id session) (sessions db')) = []"
  proof -
    have "filter (\<lambda>s. session_token s = session_token session)
            (filter (\<lambda>s. session_id s \<noteq> session_id session) (sessions db'))
          = filter (\<lambda>s. session_id s \<noteq> session_id session)
              (filter (\<lambda>s. session_token s = session_token session) (sessions db'))"
      by (simp add: conj_commute)
    also have "\<dots> = []" using found by simp
    finally show ?thesis .
  qed
  have revoked: "check_auth e' request (SessionToken_delete session db') = Inr (False, None)" for e'
    using check_auth_missing [OF cookie, of "SessionToken_delete session db'" e'] gone
    by (simp add: filter_SessionToken_delete)
  have logged_out: "check_auth e'' request (snd (LogoutView_post e' request db')) = Inr (False, None)"
    if "get_client_ip request = Some a" "a \<noteq> []" for e' e'' a
    using check_auth_missing [OF cookie, of "snd (LogoutView_post e' request db')" e''] gone
      logout_sessions [OF cookie ne found that, of e']
    by simp
  have own: "filter (\<lambda>s. session_teacher s = teacher) (sessions db') = [session]"
    using c(2) st(2) by (simp add: filter_empty_conv)
  have one: "length (filter (\<lambda>s. session_teacher s = t) (sessions db')) \<le> 1"
    if "\<forall>t. length (filter (\<lambda>s. session_teacher s = t) (sessions db)) \<le> 1" for t
  proof (cases "t = teacher")
    case True
    with own show ?thesis by simp
  next
    case False
    then have "filter (\<lambda>s. session_teacher s = t) (sessions db')
                 = filter (\<lambda>s. session_teacher s = t) (sessions db)"
      using c(2) st(2) by (auto intro: filter_cong)
    with that show ?thesis by simp
  qed
  from valid [of e] h have now_ok: "check_auth e request db' = Inr (True, Some teacher)"
    by simp
  have before: "\<forall>e'. now e' < now e + timedelta_hours 8 \<longrightarrow>
                 check_auth e' request db' = Inr (True, Some teacher)"
    using valid by simp
  have after: "\<forall>e'. now e + timedelta_hours 8 \<le> now e' \<longrightarrow>
                 check_auth e' request db' = Inr (False, None)"
    using valid by simp
  from now_ok before after revoked logged_out own one show ?thesis by blast
qed

lemma create_alice_session:
  "create_token (env_at 5000) 1 db_start
     = (Inr new_session, db_start\<lparr>sessions := [carol_session, new_session], next_session_id := 4\<rparr>)"
  by (simp add: create_token_def Let_def new_session_def scenario_defs)

theorem session_token_lifecycle_witness:
  "create_token (env_at 5000) 1 db_start
     = (Inr new_session, db_start\<lparr>sessions := [carol_session, new_session], next_session_id := 4\<rparr>)
   \<and> token_hex (env_at 5000) \<noteq> []
   \<and> check_auth (env_at 5000)
        (api_request (Some (session_token new_session)) None (id_data 1 None))
        (db_start\<lparr>sessions := [carol_session, new_session], next_session_id := 4\<rparr>)
       = Inr (True, Some 1)
   \<and> check_auth (env_at (5000 + timedelta_hours 8))
        (api_request (Some (session_token new_session)) None (id_data 1 None))
        (db_start\<lparr>sessions := [carol_session, new_session], next_session_id := 4\<rparr>)
       = Inr (False, None)
   \<and> check_auth (env_at 6000)
        (api_request (Some (session_token new_session)) None (id_data 1 None))
        (SessionToken_delete new_session
           (db_start\<lparr>sessions := [carol_session, new_session], next_session_id := 4\<rparr>))
       = Inr (False, None)
   \<and> filter (\<lambda>s. session_teacher s = 1)
        (sessions (db_start\<lparr>sessions := [carol_session, new_session], next_session_id := 4\<rparr>))
       = [new_session]"
proof -
  let ?r = "api_request (Some (session_token new_session)) None (id_data 1 None)"
  have t: "token_hex (env_at 5000) \<noteq> []" by (simp add: env_at_def)
  have c: "COOKIES_session_token ?r = Some (session_token new_session)"
    by (simp add: api_request_def)
  note l = session_token_lifecycle [OF create_alice_session t c]
  have late: "now (env_at 5000) + timedelta_hours 8 \<le> now (env_at (5000 + timedelta_hours 8))"
    by (simp add: env_at_def)
  from l late t create_alice_session show ?thesis by blast
qed

section \<open>The gate\<close>

lemma rejected_check_auth:
  assumes "no_token r \<or> unknown_token r db \<or> expired_token e r db"
  shows "check_auth e r db = Inr (False, None)"
proof (cases "COOKIES_session_token r")
  case None
  then show ?thesis by (simp add: check_auth_def)
next
  case (Some t)
  show ?thesis
  proof (cases "t = []")
    case True
    with Some show ?thesis by (simp add: check_auth_def)
  next
    case False
    from assms Some False
    have "filter (\<lambda>s. session_token s = t) (sessions db) = []
          \<or> (\<exists>s. filter (\<lambda>s. session_token s = t) (sessions db) = [s]
                  \<and> session_expires_at s \<le> now e)"
      by (auto simp: no_token_def unknown_token_def expired_token_def split: list.splits)
    then show ?thesis
    proof
      assume "filter (\<lambda>s. session_token s = t) (sessions db) = []"
      with Some show ?thesis by (rule check_auth_missing)
    next
      assume "\<exists>s. filter (\<lambda>s. session_token s = t) (sessions db) = [s]
                  \<and> session_expires_at s \<le> now e"
      then obtain s where s: "filter (\<lambda>s. session_token s = t) (sessions db) = [s]"
        and x: "session_expires_at s \<le> now e" by blast
      from check_auth_found [OF Some False s, of e] x show ?thesis by simp
    qed
  qed
qed

lemma gate_reject:
  assumes "check_auth e r db = Inr (False, None)"
  shows "require_authentication view e r db =
           (Inr (if X_Requested_With r = Some ''XMLHttpRequest''
                 then JsonResponse (JObj [(''error'', JStr ''Authentication required'')]) 401
                 else Redirect ''login'' []), db)"
  using assms by (simp add: require_authentication_def)

text \<open>
  C9. Two requests that each fail to authenticate (no token, a token that no session holds,
  or the token of an expired session, in any combination) and come from the same kind of
  caller get the same response from the gate, whatever the view behind it: the 401 body
  \<^verbatim>\<open>{'error': 'Authentication required'}\<close> for a caller that sends
  \<^verbatim>\<open>X-Requested-With: XMLHttpRequest\<close>, the redirect to the login page for any other. The
  store is not touched.
\<close>

theorem gate_rejections_indistinguishable:
  assumes c1: "no_token r1 \<or> unknown_token r1 db1 \<or> expired_token e1 r1 db1"
    and c2: "no_token r2 \<or> unknown_token r2 db2 \<or> expired_token e2 r2 db2"
    and same: "(X_Requested_With r1 = Some ''XMLHttpRequest'')
                 = (X_Requested_With r2 = Some ''XMLHttpRequest'')"
  shows "fst (require_authentication view1 e1 r1 db1)
           = fst (require_authentication view2 e2 r2 db2)
       \<and> require_authentication view1 e1 r1 db1 =
           (Inr (if X_Requested_With r1 = Some ''XMLHttpRequest''
                 then JsonResponse (JObj [(''error'', JStr ''Authentication required'')]) 401
                 else Redirect ''login'' []), db1)"
  using gate_reject [OF rejected_check_auth [OF c1], of view1]
    gate_reject [OF rejected_check_auth [OF c2], of view2] same
  by simp

theorem gate_rejections_indistinguishable_witness:
  "no_token (api_request None None (id_data 1 None))
   \<and> unknown_token (api_request (Some ''zz'') None (id_data 1 None)) db_bob
   \<and> expired_token (env_at (timedelta_hours 8))
        (api_request (Some alice_token) None (id_data 1 None)) db_bob
   \<and> fst (dispatch delete_student (env_at 2000) (api_request None None (id_data 1 None)) db_bob)
       = Inr (JsonResponse (JObj [(''error'', JStr ''Authentication required'')]) 401)
   \<and> fst (dispatch delete_student (env_at 2000)
             (api_request (Some ''zz'') None (id_data 1 None)) db_bob)
       = Inr (JsonResponse (JObj [(''error'', JStr ''Authentication required'')]) 401)
   \<and> fst (dispatch delete_student (env_at (timedelta_hours 8))
             (api_request (Some alice_token) None (id_data 1 None)) db_bob)
       = Inr (JsonResponse (JObj [(''error'', JStr ''Authentication required'')]) 401)"
proof -
  let ?a = "api_request None None (id_data 1 None)"
  let ?u = "api_request (Some ''zz'') None (id_data 1 None)"
  let ?x = "api_request (Some alice_token) None (id_data 1 None)"
  have a: "no_token ?a" by (simp add: no_token_def api_request_def)
  have u: "unknown_token ?u db_bob"
    by (simp add: unknown_token_def scenario_defs)
  have x: "expired_token (env_at (timedelta_hours 8)) ?x db_bob"
    by (simp add: expired_token_def scenario_defs)
  have h: "X_Requested_With ?a = Some ''XMLHttpRequest''" "X_Requested_With ?u = Some ''XMLHttpRequest''"
    "X_Requested_With ?x = Some ''XMLHttpRequest''"
    by (simp_all add: api_request_def)
  have 1: "no_token ?a \<or> unknown_token ?a db_bob \<or> expired_token (env_at 2000) ?a db_bob"
    using a by simp
  have 2: "no_token ?u \<or> unknown_token ?u db_bob \<or> expired_token (env_at 2000) ?u db_bob"
    using u by simp
  have 3: "no_token ?x \<or> unknown_token ?x db_bob \<or> expired_token (env_at (timedelta_hours 8)) ?x db_bob"
    using x by simp
  have s12: "(X_Requested_With ?a = Some ''XMLHttpRequest'') = (X_Requested_With ?u = Some ''XMLHttpRequest'')"
    and s23: "(X_Requested_With ?u = Some ''XMLHttpRequest'') = (X_Requested_With ?x = Some ''XMLHttpRequest'')"
    and s31: "(X_Requested_With ?x = Some ''XMLHttpRequest'') = (X_Requested_With ?a = Some ''XMLHttpRequest'')"
    using h by simp_all
  from gate_rejections_indistinguishable [OF 1 2 s12, of StudentDeleteView_post StudentDeleteView_post]
    gate_rejections_indistinguishable [OF 2 3 s23, of StudentDeleteView_post StudentDeleteView_post]
    gate_rejections_indistinguishable [OF 3 1 s31, of StudentDeleteView_post StudentDeleteView_post]
    a u x h
  show ?thesis by (simp add: dispatch_def)
qed

section \<open>The login form\<close>

lemma last_dropWhile_ne: "dropWhile P xs \<noteq> [] \<Longrightarrow> last (dropWhile P xs) = last xs"
  by (induction xs) (auto split: if_splits)

lemma dropWhile_rev_dropWhile:
  "dropWhile P (rev (dropWhile P (rev (dropWhile P s)))) = rev (dropWhile P (rev (dropWhile P s)))"
proof (cases "dropWhile P (rev (dropWhile P s)) = []")
  case True
  have "dropWhile P (rev []) = rev []" by simp
  with True show ?thesis by metis
next
  case False
  let ?t = "dropWhile P s"
  let ?w = "dropWhile P (rev ?t)"
  have t: "?t \<noteq> []" using False by (metis dropWhile.simps(1) rev.simps(1))
  have "last ?w = last (rev ?t)" using False by (rule last_dropWhile_ne)
  also have "\<dots> = hd ?t" using t by (simp add: last_rev)
  finally have "\<not> P (last ?w)" using hd_dropWhile [OF t] by simp
  then have "\<not> P (hd (rev ?w))" using False by (simp add: hd_rev)
  then show ?thesis by (simp add: dropWhile_eq_self_iff)
qed

lemma strip_strip: "strip (strip s) = strip s"
  by (simp add: strip_def dropWhile_rev_dropWhile)

lemma short_username_rejected:
  assumes "length (html_escape (strip u)) < 3"
  shows "\<exists>m. run_field (CharField_clean (Some 100) (Some u)) clean_username = Inl m"
  using assms
  by (simp add: run_field_def CharField_clean_def clean_username_def Let_def strip_strip)

lemma short_password_rejected:
  assumes "length p < 6"
  shows "\<exists>m. run_field (CharField_clean None (Some p)) clean_password = Inl m"
proof -
  have "length (strip p) < 6" using length_strip_le [of p] assms by simp
  then show ?thesis
    by (simp add: run_field_def CharField_clean_def clean_password_def Let_def)
qed

lemma LoginForm_invalid:
  assumes "(\<exists>m. run_field (CharField_clean (Some 100) ru) clean_username = Inl m)
           \<or> (\<exists>m. run_field (CharField_clean None rp) clean_password = Inl m)"
  shows "\<exists>errors. errors \<noteq> [] \<and> LoginForm_is_valid ru rp = Inl errors"
  using assms
  by (auto simp: LoginForm_is_valid_def Let_def field_errors_def split: sum.splits)

lemma LoginView_invalid:
  "LoginForm_is_valid (POST_username r) (POST_password r) = Inl errors \<Longrightarrow>
     LoginView_post e r db = (Inr (Render ''portal/login.html'' errors), db)"
  by (simp add: LoginView_post_def)

lemma LoginForm_is_valid_Inr:
  assumes "LoginForm_is_valid ru rp = Inr (u, p)"
  shows "run_field (CharField_clean None rp) clean_password = Inr p"
proof (cases "run_field (CharField_clean (Some 100) ru) clean_username")
  case (Inl m)
  with assms show ?thesis by (simp add: LoginForm_is_valid_def)
next
  case (Inr u')
  note u = this
  show ?thesis
  proof (cases "run_field (CharField_clean None rp) clean_password")
    case (Inl m)
    with assms u show ?thesis by (simp add: LoginForm_is_valid_def)
  next
    case (Inr p')
    with assms u show ?thesis by (simp add: LoginForm_is_valid_def)
  qed
qed

lemma CharField_clean_nonempty: "CharField_clean n raw = Inr v \<Longrightarrow> v \<noteq> []"
  unfolding CharField_clean_def Let_def
  by (cases "strip (case raw of None \<Rightarrow> [] | Some s \<Rightarrow> s) = []") (auto split: option.splits if_splits)

lemma clean_password_long: "clean_password v = Inr p \<Longrightarrow> v \<noteq> [] \<Longrightarrow> 6 \<le> length p"
  unfolding clean_password_def
  by (cases "length v < 6") auto

lemma LoginForm_valid_password:
  assumes "LoginForm_is_valid ru rp = Inr (u, p)"
  shows "6 \<le> length p"
proof -
  obtain v where v: "CharField_clean None rp = Inr v" "clean_password v = Inr p"
    using run_field_Inr [OF LoginForm_is_valid_Inr [OF assms]] by blast
  from clean_password_long [OF v(2) CharField_clean_nonempty [OF v(1)]] show ?thesis .
qed

lemma create_token_other_sessions:
  assumes "k \<noteq> tid"
  shows "filter (\<lambda>s. session_teacher s = tid) (sessions (snd (create_token e k db)))
           = filter (\<lambda>s. session_teacher s = tid) (sessions db)"
  using assms by (auto simp: create_token_def Let_def intro: filter_cong)

lemma login_sessions:
  "sessions (snd (LoginView_post e r db)) = sessions db
   \<or> (\<exists>t\<in>set (teachers db). \<exists>p. 6 \<le> length p \<and> check_password e t p
         \<and> sessions (snd (LoginView_post e r db))
             = sessions (snd (create_token e (teacher_id t) db)))"
proof (cases "LoginForm_is_valid (POST_username r) (POST_password r)")
  case (Inl errs)
  then show ?thesis by (simp add: LoginView_post_def)
next
  case (Inr v)
  note form = this
  obtain u p where v: "v = (u, p)" by (cases v)
  have p: "6 \<le> length p" using form v LoginForm_valid_password by blast
  show ?thesis
  proof (cases "objects_get (\<lambda>t. teacher_username t = u) (teachers db)")
    case (Inl ex)
    with form v show ?thesis by (simp add: LoginView_post_def)
  next
    case (Inr t)
    note t = this
    have mem: "t \<in> set (teachers db)" using objects_get_Inr_mem(1) [OF t] .
    show ?thesis
    proof (cases "check_password e t p")
      case False
      with form v t show ?thesis by (simp add: LoginView_post_def)
    next
      case True
      obtain r1 db1 where ct: "create_token e (teacher_id t) db = (r1, db1)"
        by (cases "create_token e (teacher_id t) db")
      obtain r2 db2 where al: "AuditLog_create e (teacher_id t) ''LOGIN'' ''N/A'' ''N/A'' None None
                                 (get_client_ip r) db1 = (r2, db2)"
        by (cases "AuditLog_create e (teacher_id t) ''LOGIN'' ''N/A'' ''N/A'' None None
                     (get_client_ip r) db1")
      have s2: "sessions db2 = sessions db1"
        using AuditLog_create_sessions [of e "teacher_id t" "''LOGIN''" "''N/A''" "''N/A''" None None
            "get_client_ip r" db1] al by simp
      have "sessions (snd (LoginView_post e r db)) = sessions db1"
        using form v t True ct al s2 by (simp add: LoginView_post_def split: sum.splits)
      with ct mem p True show ?thesis by force
    qed
  qed
qed

text \<open>
  C10. A login request whose username, trimmed and escaped, has fewer than three
  characters, or whose password has fewer than six, is answered with the login form and
  its errors; the answer and the store are the same whatever the store and the digest
  are, so the credentials are never looked up. Consequently, for a teacher whose only
  accepted password has fewer than six characters, no login request ever changes that
  teacher's sessions: none is created for them.
\<close>

theorem login_rejects_short_credentials:
  "(POST_username r = Some u \<and> POST_password r = Some p
      \<and> (length (html_escape (strip u)) < 3 \<or> length p < 6)
    \<longrightarrow> (\<exists>errors. errors \<noteq> [] \<and>
           (\<forall>e db. LoginView_post e r db = (Inr (Render ''portal/login.html'' errors), db))))
   \<and> (length stored < 6
       \<and> (\<forall>t\<in>set (teachers db). teacher_id t = tid \<longrightarrow>
             (\<forall>q. check_password e t q \<longrightarrow> q = stored))
    \<longrightarrow> (\<forall>r'. filter (\<lambda>s. session_teacher s = tid) (sessions (snd (LoginView_post e r' db)))
                = filter (\<lambda>s. session_teacher s = tid) (sessions db)))"
proof (intro conjI impI allI)
  assume a: "POST_username r = Some u \<and> POST_password r = Some p
      \<and> (length (html_escape (strip u)) < 3 \<or> length p < 6)"
  then have "(\<exists>m. run_field (CharField_clean (Some 100) (POST_username r)) clean_username = Inl m)
           \<or> (\<exists>m. run_field (CharField_clean None (POST_password r)) clean_password = Inl m)"
    using short_username_rejected [of u] short_password_rejected [of p] by auto
  then obtain errors where e: "errors \<noteq> []"
      "LoginForm_is_valid (POST_username r) (POST_password r) = Inl errors"
    using LoginForm_invalid by blast
  from e(1) LoginView_invalid [OF e(2)]
  show "\<exists>errors. errors \<noteq> [] \<and>
           (\<forall>e db. LoginView_post e r db = (Inr (Render ''portal/login.html'' errors), db))"
    by blast
next
  fix r'
  assume b: "length stored < 6
       \<and> (\<forall>t\<in>set (teachers db). teacher_id t = tid \<longrightarrow>
             (\<forall>q. check_password e t q \<longrightarrow> q = stored))"
  from login_sessions [of e r' db]
  show "filter (\<lambda>s. session_teacher s = tid) (sessions (snd (LoginView_post e r' db)))
          = filter (\<lambda>s. session_teacher s = tid) (sessions db)"
  proof
    assume "sessions (snd (LoginView_post e r' db)) = sessions db"
    then show ?thesis by simp
  next
    assume "\<exists>t\<in>set (teachers db). \<exists>p. 6 \<le> length p \<and> check_password e t p
         \<and> sessions (snd (LoginView_post e r' db))
             = sessions (snd (create_token e (teacher_id t) db))"
    then obtain t p where t: "t \<in> set (teachers db)" and p: "6 \<le> length p"
      and c: "check_password e t p"
      and s: "sessions (snd (LoginView_post e r' db))
                = sessions (snd (create_token e (teacher_id t) db))"
      by blast
    have "teacher_id t \<noteq> tid"
    proof
      assume "teacher_id t = tid"
      with b t c have "p = stored" by blast
      with b p show False by simp
    qed
    from create_token_other_sessions [OF this, of e db] s show ?thesis by simp
  qed
qed

lemma carol_only_password: "check_password (env_at 5000) carol q \<Longrightarrow> q = ''abc''"
proof -
  assume "check_password (env_at 5000) carol q"
  then have "q @ ''77f0'' = ''abc'' @ ''77f0''"
    by (simp add: check_password_def env_at_def carol_def stand_in_digest_def)
  then show ?thesis by (simp only: append_same_eq)
qed

theorem login_rejects_short_credentials_witness:
  "POST_username (login_request ''carol'' ''abc'' (Some ''10.0.0.9'')) = Some ''carol''
   \<and> POST_password (login_request ''carol'' ''abc'' (Some ''10.0.0.9'')) = Some ''abc''
   \<and> length ''abc'' < 6
   \<and> check_password (env_at 5000) carol ''abc''
   \<and> snd (LoginView_post (env_at 5000) (login_request ''carol'' ''abc'' (Some ''10.0.0.9''))
            db_start) = db_start
   \<and> filter (\<lambda>s. session_teacher s = 2)
        (sessions (snd (LoginView_post (env_at 5000)
                          (login_request ''carol'' ''abcdefgh'' (Some ''10.0.0.9'')) db_start)))
       = [carol_session]"
proof -
  let ?r = "login_request ''carol'' ''abc'' (Some ''10.0.0.9'')"
  have u: "POST_username ?r = Some ''carol''" and p: "POST_password ?r = Some ''abc''"
    by (simp_all add: login_request_def)
  have short: "length ''abc'' < 6"
    by simp
  have stored: "check_password (env_at 5000) carol ''abc''"
    by (simp add: check_password_def env_at_def carol_def)
  have only: "\<forall>t\<in>set (teachers db_start). teacher_id t = 2 \<longrightarrow>
         (\<forall>q. check_password (env_at 5000) t q \<longrightarrow> q = ''abc'')"
    using carol_only_password by (simp add: db_start_def alice_def)
  note inst = login_rejects_short_credentials
    [of ?r "''carol''" "''abc''" "''abc''" db_start 2 "env_at 5000"]
  from inst u p short obtain errors where
    "\<forall>e db. LoginView_post e ?r db = (Inr (Render ''portal/login.html'' errors), db)"
    by blast
  then have a: "snd (LoginView_post (env_at 5000) ?r db_start) = db_start"
    by simp
  from inst short only
  have "filter (\<lambda>s. session_teacher s = 2)
          (sessions (snd (LoginView_post (env_at 5000)
                            (login_request ''carol'' ''abcdefgh'' (Some ''10.0.0.9'')) db_start)))
        = filter (\<lambda>s. session_teacher s = 2) (sessions db_start)"
    by blast
  also have "\<dots> = [carol_session]"
    by (simp add: db_start_def alice_session_def carol_session_def)
  finally show ?thesis
    using u p a stored by simp
qed

end
